theory Spec2Isabelle
  imports Main "HOL-Library.Sublist"
begin

text \<open>
  The Next.js routes of the Gmail workflow that send emails to a local model and turn
  its answer into records: \<open>api/organize/categorize\<close>, \<open>api/todo/generate-tasks\<close> and
  \<open>api/organize/draft\<close>, with the page function that calls the task route. A route is a
  function from the request, the backend and the response helper to the HTTP response
  and the list of backend calls it made; an exception is a value.
\<close>

section \<open>JavaScript strings\<close>

text \<open>
  The routes work on JavaScript strings. A string is modelled as a \<^typ>\<open>string\<close>, one
  \<^typ>\<open>char\<close> per code unit, which covers the code units 0 to 255 (ASCII and Latin-1).
  \<open>toLowerCase\<close> maps \<open>A\<close> to \<open>Z\<close>, and the Latin-1 capitals (0xC0 to 0xDE without
  0xD7), to the letter 32 places later (bit 5 set) and leaves every other code unit alone.
\<close>

definition lower_char :: "char \<Rightarrow> char" where
  "lower_char c =
     (let n = (of_char c :: nat)
      in if (65 \<le> n \<and> n \<le> 90) \<or> (192 \<le> n \<and> n \<le> 222 \<and> n \<noteq> 215)
         then (case c of Char b0 b1 b2 b3 b4 b5 b6 b7 \<Rightarrow> Char b0 b1 b2 b3 b4 True b6 b7)
         else c)"

definition toLowerCase :: "string \<Rightarrow> string" where
  "toLowerCase s = map lower_char s"

text \<open>\<open>s.includes(k)\<close>: \<open>k\<close> occurs in \<open>s\<close> as a run of consecutive code units.\<close>

fun str_includes :: "string \<Rightarrow> string \<Rightarrow> bool" where
  "str_includes [] k = (k = [])"
| "str_includes (c # cs) k = (prefix k (c # cs) \<or> str_includes cs k)"

section \<open>The keyword fallback of the categorize route\<close>

text \<open>
  \<open>extractThemeFromTask\<close> and \<open>extractCategoryFromTask\<close> of
  \<open>api/organize/categorize/route.ts\<close>, with the source's order of tests. The text that is
  searched is the template literal \<open>`${title} ${description}`\<close> in lower case.
\<close>

definition task_text :: "string \<Rightarrow> string \<Rightarrow> string" where
  "task_text title description = toLowerCase (title @ '' '' @ description)"

definition extractThemeFromTask :: "string \<Rightarrow> string \<Rightarrow> string" where
  "extractThemeFromTask title description =
     (let text = task_text title description
      in if str_includes text ''work'' \<or> str_includes text ''meeting'' \<or> str_includes text ''project''
            \<or> str_includes text ''client'' then ''work''
         else if str_includes text ''personal'' \<or> str_includes text ''family''
            \<or> str_includes text ''friend'' then ''personal''
         else if str_includes text ''finance'' \<or> str_includes text ''money''
            \<or> str_includes text ''payment'' \<or> str_includes text ''bill'' then ''finance''
         else if str_includes text ''shopping'' \<or> str_includes text ''purchase''
            \<or> str_includes text ''buy'' then ''shopping''
         else if str_includes text ''travel'' \<or> str_includes text ''trip''
            \<or> str_includes text ''flight'' then ''travel''
         else if str_includes text ''health'' \<or> str_includes text ''medical''
            \<or> str_includes text ''doctor'' then ''health''
         else if str_includes text ''education'' \<or> str_includes text ''course''
            \<or> str_includes text ''learning'' then ''education''
         else ''other'')"

definition extractCategoryFromTask :: "string \<Rightarrow> string \<Rightarrow> string" where
  "extractCategoryFromTask title description =
     (let text = task_text title description
      in if str_includes text ''meeting'' then ''meeting''
         else if str_includes text ''project'' then ''project''
         else if str_includes text ''client'' then ''client''
         else if str_includes text ''payment'' then ''payment''
         else if str_includes text ''purchase'' then ''purchase''
         else if str_includes text ''trip'' then ''trip''
         else if str_includes text ''medical'' then ''medical''
         else if str_includes text ''course'' then ''course''
         else ''general'')"

subsection \<open>The keyword tables as the specification words them\<close>

text \<open>
  The specification describes the fallback as a fixed, ordered list of pairs
  (substring, label): the first pair in list order whose substring occurs in the text
  gives the label, and a text that matches no pair gets the default label.
\<close>

fun first_match :: "(string \<times> string) list \<Rightarrow> string \<Rightarrow> string \<Rightarrow> string" where
  "first_match [] dflt text = dflt"
| "first_match ((k, l) # rules) dflt text =
     (if str_includes text k then l else first_match rules dflt text)"

definition theme_table :: "(string \<times> string) list" where
  "theme_table =
     [(''work'', ''work''), (''meeting'', ''work''), (''project'', ''work''),
      (''client'', ''work''),
      (''personal'', ''personal''), (''family'', ''personal''), (''friend'', ''personal''),
      (''finance'', ''finance''), (''money'', ''finance''), (''payment'', ''finance''),
      (''bill'', ''finance''),
      (''shopping'', ''shopping''), (''purchase'', ''shopping''), (''buy'', ''shopping''),
      (''travel'', ''travel''), (''trip'', ''travel''), (''flight'', ''travel''),
      (''health'', ''health''), (''medical'', ''health''), (''doctor'', ''health''),
      (''education'', ''education''), (''course'', ''education''),
      (''learning'', ''education'')]"

definition category_table :: "(string \<times> string) list" where
  "category_table =
     [(''meeting'', ''meeting''), (''project'', ''project''), (''client'', ''client''),
      (''payment'', ''payment''), (''purchase'', ''purchase''), (''trip'', ''trip''),
      (''medical'', ''medical''), (''course'', ''course'')]"

section \<open>JavaScript values\<close>

text \<open>
  What \<open>JSON.parse\<close> can return. A number keeps the literal that denotes it (the routes
  never calculate with one). An object is a list of properties with distinct keys.
  A value of type \<open>json option\<close> is what a property or index read gives: \<open>None\<close> is
  \<open>undefined\<close>.
\<close>

datatype json =
    JNull
  | JBool bool
  | JNum string
  | JStr string
  | JArr "json list"
  | JObj "(string \<times> json) list"

text \<open>What a \<open>throw\<close> carries: an \<open>Error\<close> with its message, or some other value.\<close>

datatype thrown = JsError string | NonError

text \<open>\<open>error instanceof Error ? error.message : dflt\<close>\<close>

fun message_or :: "string \<Rightarrow> thrown \<Rightarrow> string" where
  "message_or dflt (JsError m) = m"
| "message_or dflt NonError = dflt"

text \<open>\<open>v.name\<close> on a value that is neither \<open>undefined\<close> nor \<open>null\<close>, for the names the
  routes read (\<open>title\<close>, \<open>description\<close>, \<open>emailId\<close>): only an object has them.\<close>

fun get_prop :: "json \<Rightarrow> string \<Rightarrow> json option" where
  "get_prop (JObj fs) name = map_of fs name"
| "get_prop _ name = None"

text \<open>Setting a property: in place when the key is there, at the end otherwise.\<close>

fun set_prop :: "string \<Rightarrow> json \<Rightarrow> (string \<times> json) list \<Rightarrow> (string \<times> json) list" where
  "set_prop k v [] = [(k, v)]"
| "set_prop k v ((k', v') # fs) =
     (if k' = k then (k, v) # fs else (k', v') # set_prop k v fs)"

text \<open>\<open>xs[index]\<close> on an array: \<open>undefined\<close> beyond the end.\<close>

definition js_index :: "'a list \<Rightarrow> nat \<Rightarrow> 'a option" where
  "js_index xs i = (if i < length xs then Some (xs ! i) else None)"

definition is_digit :: "char \<Rightarrow> bool" where
  "is_digit c = (c \<in> set ''0123456789'')"

text \<open>The number that a run of decimal digits denotes.\<close>

definition digits_value :: "string \<Rightarrow> nat" where
  "digits_value ds = foldl (\<lambda>v c. 10 * v + (of_char c - 48)) 0 ds"

text \<open>
  A number literal is the number \<open>m * 10 ^ e\<close>, where \<open>m\<close> is what the digits of its
  mantissa denote and \<open>e\<close> is its exponent less the number of digits after the point.
  \<open>JSON.parse\<close> gives the double nearest to it, which is zero when \<open>m\<close> is zero and
  when the number is at most \<open>2 ^ -1075\<close>, half the least positive double.
\<close>

definition num_is_zero :: "string \<Rightarrow> bool" where
  "num_is_zero s =
     (let mantissa = takeWhile (\<lambda>c. c \<noteq> CHR ''e'' \<and> c \<noteq> CHR ''E'') s;
          exponent = drop 1 (dropWhile (\<lambda>c. c \<noteq> CHR ''e'' \<and> c \<noteq> CHR ''E'') s);
          m = digits_value (filter is_digit mantissa);
          after_point = length (filter is_digit (dropWhile (\<lambda>c. c \<noteq> CHR ''.'') mantissa));
          x = int (digits_value (filter is_digit exponent));
          e = (if CHR ''-'' \<in> set exponent then - x else x) - int after_point
      in if m = 0 then True
         else if 0 \<le> e then False
         else m * 2 ^ 1075 \<le> 10 ^ nat (- e))"

text \<open>Truthiness, as \<open>if (v)\<close>, \<open>v && w\<close> and \<open>v || w\<close> test it.\<close>

fun truthy :: "json option \<Rightarrow> bool" where
  "truthy None = False"
| "truthy (Some JNull) = False"
| "truthy (Some (JBool b)) = b"
| "truthy (Some (JNum s)) = (\<not> num_is_zero s)"
| "truthy (Some (JStr s)) = (s \<noteq> [])"
| "truthy (Some (JArr xs)) = True"
| "truthy (Some (JObj fs)) = True"

text \<open>\<open>Array.prototype.join\<close> on strings.\<close>

fun join :: "string \<Rightarrow> string list \<Rightarrow> string" where
  "join sep [] = []"
| "join sep [s] = s"
| "join sep (s # t # ss) = s @ sep @ join sep (t # ss)"

text \<open>
  \<open>ToString\<close>, which a template literal applies to each \<open>${...}\<close>. A number prints
  as its literal (JavaScript prints the shortest literal of the same number). An array
  joins the strings of its elements with commas, \<open>null\<close> counting as the empty string. A plain
  object gives \<open>[object Object]\<close>; an object with an own property \<open>toString\<close> has no
  callable \<open>toString\<close> left (a parsed value is never a function) and its \<open>valueOf\<close>
  gives back an object, so the conversion throws a \<open>TypeError\<close>.
\<close>

definition cannot_convert :: thrown where
  "cannot_convert = JsError ''Cannot convert object to primitive value''"

fun to_string :: "json \<Rightarrow> thrown + string"
  and to_strings :: "json list \<Rightarrow> thrown + string list" where
  "to_string JNull = Inr ''null''"
| "to_string (JBool b) = Inr (if b then ''true'' else ''false'')"
| "to_string (JNum s) = Inr s"
| "to_string (JStr s) = Inr s"
| "to_string (JArr xs) =
     (case to_strings xs of Inl e \<Rightarrow> Inl e | Inr ss \<Rightarrow> Inr (join '','' ss))"
| "to_string (JObj fs) =
     (if ''toString'' \<in> set (map fst fs) then Inl cannot_convert
      else Inr ''[object Object]'')"
| "to_strings [] = Inr []"
| "to_strings (x # xs) =
     (case (if x = JNull then Inr [] else to_string x) of
        Inl e \<Rightarrow> Inl e
      | Inr s \<Rightarrow> (case to_strings xs of Inl e \<Rightarrow> Inl e | Inr ss \<Rightarrow> Inr (s # ss)))"

fun template_arg :: "json option \<Rightarrow> thrown + string" where
  "template_arg None = Inr ''undefined''"
| "template_arg (Some v) = to_string v"

text \<open>Decimal digits of a natural number, as a template literal prints a count or an index.\<close>

fun show_nat :: "nat \<Rightarrow> string" where
  "show_nat n =
     (if n < 10 then [''0123456789'' ! n]
      else show_nat (n div 10) @ [''0123456789'' ! (n mod 10)])"

declare show_nat.simps [simp del]

section \<open>Emails\<close>

text \<open>The interface \<open>Email\<close> of the routes; the optional fields are options.\<close>

record email =
  email_id :: string
  subject :: string
  sender :: string
  date :: string
  snippet :: string
  body :: "string option"
  labels :: "string list"
  theme :: "string option"
  category :: "string option"

text \<open>\<open>a || b\<close> on strings, where \<open>a\<close> may be absent.\<close>

fun or_else :: "string option \<Rightarrow> string \<Rightarrow> string" where
  "or_else None d = d"
| "or_else (Some s) d = (if s = [] then d else s)"

section \<open>The model backend\<close>

text \<open>
  The Ollama client, as the routes use it: \<open>list()\<close> resolves or throws, and
  \<open>chat({model, messages})\<close> throws or resolves to a completion, of which the routes
  read \<open>completion.message?.content\<close> (\<open>None\<close> when the message or its content is
  absent). Each call is recorded, in order.
\<close>

datatype role = System | User | Assistant

type_synonym chat_message = "role \<times> string"

record ollama =
  list_models :: "thrown option"
  chat :: "string \<Rightarrow> chat_message list \<Rightarrow> thrown + string option"

datatype backend_call = ListCall | ChatCall string "chat_message list"

text \<open>
  \<open>parseAIResponse\<close> is imported from \<open>@/lib/json-helper\<close>. The routes only call it, on
  the response text alone, inside a \<open>try\<close>; so they are modelled for any helper that
  throws or returns an array, and take the helper as their first argument.
\<close>

type_synonym response_parser = "string \<Rightarrow> thrown + json list"

section \<open>Responses of the routes\<close>

datatype response_body =
    ErrorBody string
  | ErrorDetails string string
  | ParseFailure string string string
  | Categorized "email list"
  | TaskList "json list" string
  | DraftBody string

type_synonym http_response = "nat \<times> response_body"

definition unavailable :: http_response where
  "unavailable =
     (500, ErrorBody ''Ollama server not available. Please start Ollama with: ollama serve'')"

section \<open>The categorize route\<close>

text \<open>
  The theme and the category of one parsed element. The two helper functions convert
  their arguments inside the template literal, \<open>title\<close> first, and that conversion can
  throw; the keyword tests then run on the strings.
\<close>

definition extractThemeFromTask_js :: "json option \<Rightarrow> json option \<Rightarrow> thrown + string" where
  "extractThemeFromTask_js title description =
     (case template_arg title of
        Inl e \<Rightarrow> Inl e
      | Inr t \<Rightarrow> (case template_arg description of
                   Inl e \<Rightarrow> Inl e
                 | Inr d \<Rightarrow> Inr (extractThemeFromTask t d)))"

definition extractCategoryFromTask_js :: "json option \<Rightarrow> json option \<Rightarrow> thrown + string" where
  "extractCategoryFromTask_js title description =
     (case template_arg title of
        Inl e \<Rightarrow> Inl e
      | Inr t \<Rightarrow> (case template_arg description of
                   Inl e \<Rightarrow> Inl e
                 | Inr d \<Rightarrow> Inr (extractCategoryFromTask t d)))"

text \<open>\<open>{...email, theme: 'other', category: 'general'}\<close>\<close>

definition fallback_record :: "email \<Rightarrow> email" where
  "fallback_record e = e\<lparr>theme := Some ''other'', category := Some ''general''\<rparr>"

text \<open>
  The body of the \<open>forEach\<close> callback for one email: the record it pushes, or what it
  throws. \<open>theme || 'other'\<close> and \<open>category || 'general'\<close> guard against an empty
  string.
\<close>

definition merge_one :: "json option \<Rightarrow> email \<Rightarrow> thrown + email" where
  "merge_one categorized e =
     (case categorized of
        None \<Rightarrow> Inr (fallback_record e)
      | Some c \<Rightarrow>
          if truthy (Some c) \<and> truthy (get_prop c ''title'') then
            (let title = get_prop c ''title'';
                 description = get_prop c ''description''
             in case extractThemeFromTask_js title description of
                  Inl ex \<Rightarrow> Inl ex
                | Inr th \<Rightarrow>
                    (case extractCategoryFromTask_js title description of
                       Inl ex \<Rightarrow> Inl ex
                     | Inr cat \<Rightarrow>
                         Inr (e\<lparr>theme := Some (or_else (Some th) ''other''),
                                 category := Some (or_else (Some cat) ''general'')\<rparr>)))
          else Inr (fallback_record e))"

text \<open>
  \<open>batch.forEach((email, index) => ...)\<close> from \<open>index\<close> on: the array
  \<open>categorizedEmails\<close> after the pushes, and what stopped the loop, if anything did.
\<close>

fun merge_from :: "json list \<Rightarrow> nat \<Rightarrow> email list \<Rightarrow> email list
    \<Rightarrow> email list \<times> thrown option" where
  "merge_from categorization index [] acc = (acc, None)"
| "merge_from categorization index (e # es) acc =
     (case merge_one (js_index categorization index) e of
        Inl ex \<Rightarrow> (acc, Some ex)
      | Inr r \<Rightarrow> merge_from categorization (Suc index) es (acc @ [r]))"

text \<open>
  Lines 143 to 183: what one batch and its response text add to \<open>categorizedEmails\<close>.
  The \<open>catch\<close> pushes the fallback record of every email of the batch, whether the
  helper threw or the loop did.
\<close>

definition reconcile_batch :: "response_parser \<Rightarrow> string option \<Rightarrow> email list
    \<Rightarrow> email list \<Rightarrow> email list" where
  "reconcile_batch parseAIResponse responseText batch acc =
     (case responseText of
        None \<Rightarrow> acc
      | Some text \<Rightarrow>
          if text = [] then acc
          else
            (case parseAIResponse text of
               Inl ex \<Rightarrow> acc @ map fallback_record batch
             | Inr categorization \<Rightarrow>
                 (case merge_from categorization 0 batch acc of
                    (acc', None) \<Rightarrow> acc'
                  | (acc', Some ex) \<Rightarrow> acc' @ map fallback_record batch)))"

subsection \<open>The prompt of one batch\<close>

text \<open>
  \<open>JSON.stringify\<close> of a string: quotes around it, with the quote, the backslash and
  the control characters escaped.
\<close>

definition hex4 :: "nat \<Rightarrow> string" where
  "hex4 n = ''00'' @ [''0123456789abcdef'' ! (n div 16), ''0123456789abcdef'' ! (n mod 16)]"

definition quote_char :: "char \<Rightarrow> string" where
  "quote_char c =
     (let n = (of_char c :: nat)
      in if n = 34 then [CHR 0x5C, CHR 0x22]
         else if n = 92 then [CHR 0x5C, CHR 0x5C]
         else if n = 8 then [CHR 0x5C, CHR ''b'']
         else if n = 12 then [CHR 0x5C, CHR ''f'']
         else if n = 10 then [CHR 0x5C, CHR ''n'']
         else if n = 13 then [CHR 0x5C, CHR ''r'']
         else if n = 9 then [CHR 0x5C, CHR ''t'']
         else if n < 32 then [CHR 0x5C, CHR ''u''] @ hex4 n
         else [c])"

definition quote :: "string \<Rightarrow> string" where
  "quote s = [CHR 0x22] @ concat (map quote_char s) @ [CHR 0x22]"

text \<open>The object that \<open>batch.map\<close> builds for one email.\<close>

record email_data =
  d_id :: string
  d_subject :: string
  d_sender :: string
  d_snippet :: string
  d_body :: string

definition emailData_of :: "email \<Rightarrow> email_data" where
  "emailData_of e =
     \<lparr>d_id = email_id e, d_subject = subject e, d_sender = sender e,
      d_snippet = snippet e, d_body = or_else (body e) (snippet e)\<rparr>"

text \<open>\<open>JSON.stringify(emailData, null, 2)\<close>\<close>

definition stringify_entry :: "email_data \<Rightarrow> string" where
  \<open>stringify_entry d =
     ''  {\<newline>'' @
     ''    "id": '' @ quote (d_id d) @ '',\<newline>'' @
     ''    "subject": '' @ quote (d_subject d) @ '',\<newline>'' @
     ''    "sender": '' @ quote (d_sender d) @ '',\<newline>'' @
     ''    "snippet": '' @ quote (d_snippet d) @ '',\<newline>'' @
     ''    "body": '' @ quote (d_body d) @ ''\<newline>'' @
     ''  }''\<close>

definition stringify_emailData :: "email_data list \<Rightarrow> string" where
  \<open>stringify_emailData ds =
     (if ds = [] then ''[]''
      else ''[\<newline>'' @ join '',\<newline>'' (map stringify_entry ds) @ ''\<newline>]'')\<close>

definition categorize_prompt :: "email_data list \<Rightarrow> string" where
  \<open>categorize_prompt emailData =
     ''\<newline>Analyze the following emails and categorize them by theme. For each email, provide:\<newline>'' @
     ''1. A theme category (work, personal, finance, shopping, travel, health, education, or other)\<newline>'' @
     ''2. A specific category within that theme\<newline>'' @
     ''\<newline>'' @
     ''Email data:\<newline>'' @
     stringify_emailData emailData @ ''\<newline>'' @
     ''\<newline>'' @
     ''Respond with a JSON array where each object has:\<newline>'' @
     ''- id: the email ID\<newline>'' @
     ''- theme: the main theme category\<newline>'' @
     ''- category: a specific category within the theme\<newline>'' @
     ''\<newline>'' @
     ''Example response format:\<newline>'' @
     ''[\<newline>'' @
     ''  {\<newline>'' @
     ''    "id": "email_id",\<newline>'' @
     ''    "theme": "work",\<newline>'' @
     ''    "category": "meeting"\<newline>'' @
     ''  }\<newline>'' @
     '']\<newline>''\<close>

definition categorize_messages :: "email list \<Rightarrow> chat_message list" where
  "categorize_messages batch =
     [(System, ''You are an email categorization expert. Analyze emails and categorize them by theme and specific category. Respond only with valid JSON.''),
      (User, categorize_prompt (map emailData_of batch))]"

subsection \<open>The loop over the batches and the handler\<close>

definition batchSize :: nat where
  "batchSize = 10"

text \<open>\<open>emails.slice(i, i + batchSize)\<close>\<close>

definition slice :: "'a list \<Rightarrow> nat \<Rightarrow> nat \<Rightarrow> 'a list" where
  "slice xs i j = take (j - i) (drop i xs)"

text \<open>
  \<open>for (let i = 0; i < emails.length; i += batchSize)\<close>, from \<open>i\<close> on, with the
  array \<open>categorizedEmails\<close> and the record of the backend calls made so far. A
  \<open>chat\<close> call that throws ends the loop with what it threw.
\<close>

function categorize_loop :: "response_parser \<Rightarrow> ollama \<Rightarrow> email list \<Rightarrow> nat
    \<Rightarrow> email list \<Rightarrow> backend_call list \<Rightarrow> (thrown + email list) \<times> backend_call list" where
  "categorize_loop parseAIResponse backend emails i categorizedEmails calls =
     (if i < length emails then
        (let batch = slice emails i (i + batchSize);
             messages = categorize_messages batch;
             calls' = calls @ [ChatCall ''phi3'' messages]
         in case chat backend ''phi3'' messages of
              Inl ex \<Rightarrow> (Inl ex, calls')
            | Inr responseText \<Rightarrow>
                categorize_loop parseAIResponse backend emails (i + batchSize)
                  (reconcile_batch parseAIResponse responseText batch categorizedEmails)
                  calls')
      else (Inr categorizedEmails, calls))"
  by pat_completeness auto
termination
  by (relation "measure (\<lambda>(p, b, emails, i, acc, calls). length emails - i)")
     (auto simp: batchSize_def)

declare categorize_loop.simps [simp del]

text \<open>
  The request body after \<open>request.json()\<close>: \<open>emails\<close> is an array of emails or is
  absent, \<open>tone\<close> a string or absent.
\<close>

record request =
  emails :: "email list option"
  tone :: "string option"

text \<open>
  \<open>POST\<close> of \<open>api/organize/categorize/route.ts\<close>: the response, and the backend calls
  made. The availability probe comes first, then the test of \<open>emails\<close>; an exception of
  the loop reaches the outer \<open>catch\<close>.
\<close>

definition categorize_POST :: "response_parser \<Rightarrow> ollama \<Rightarrow> request
    \<Rightarrow> http_response \<times> backend_call list" where
  "categorize_POST parseAIResponse backend req =
     (case list_models backend of
        Some ex \<Rightarrow> (unavailable, [ListCall])
      | None \<Rightarrow>
          (case emails req of
             None \<Rightarrow> ((400, ErrorBody ''Invalid emails data''), [ListCall])
           | Some es \<Rightarrow>
               (case categorize_loop parseAIResponse backend es 0 [] [ListCall] of
                  (Inl ex, calls) \<Rightarrow> ((500, ErrorBody ''Failed to categorize emails''), calls)
                | (Inr categorizedEmails, calls) \<Rightarrow>
                    ((200, Categorized categorizedEmails), calls))))"

section \<open>The task route\<close>

text \<open>
  The text of one email in the prompt. \<open>email.snippet || email.body\<close> falls back on the
  body, and an absent body prints as \<open>undefined\<close>.
\<close>

definition snippet_or_body :: "email \<Rightarrow> string" where
  "snippet_or_body e =
     (if snippet e \<noteq> [] then snippet e
      else (case body e of None \<Rightarrow> ''undefined'' | Some b \<Rightarrow> b))"

definition email_content :: "email \<Rightarrow> string" where
  \<open>email_content e =
     ''Subject: '' @ subject e @ ''\<newline>'' @
     ''From: '' @ sender e @ ''\<newline>'' @
     ''Content: '' @ snippet_or_body e @ ''\<newline>''\<close>

definition task_prompt :: "string \<Rightarrow> string" where
  \<open>task_prompt emailContent =
     ''Analyze the following emails and generate actionable tasks. Each email should be treated as a "product" that requires attention.\<newline>'' @
     ''\<newline>'' @
     ''Emails to analyze:\<newline>'' @
     emailContent @ ''\<newline>'' @
     ''\<newline>'' @
     ''Generate tasks with the following structure for each email:\<newline>'' @
     ''- Response tasks: Tasks that require replying to the email\<newline>'' @
     ''- Follow-up tasks: Tasks that require following up on actions mentioned in the email\<newline>'' @
     ''- Team workflow tasks: Tasks that should be delegated to team members\<newline>'' @
     ''- Action tasks: General actions that need to be taken\<newline>'' @
     ''\<newline>'' @
     ''For each task, provide:\<newline>'' @
     ''- title: A clear, actionable title\<newline>'' @
     ''- description: Detailed description of what needs to be done\<newline>'' @
     ''- type: One of "response", "follow-up", "team-workflow", or "action"\<newline>'' @
     ''- priority: One of "low", "medium", "high", or "urgent" based on email content and sender importance\<newline>'' @
     ''- assignedTo: Suggest team member or "self" for personal tasks\<newline>'' @
     ''- dueDate: Suggested due date (format: YYYY-MM-DD)\<newline>'' @
     ''\<newline>'' @
     ''CRITICAL JSON REQUIREMENTS:\<newline>'' @
     ''1. Return ONLY a valid JSON array - no markdown, no explanations, no additional text\<newline>'' @
     ''2. ALL property names MUST be in double quotes: "title", "description", "type", "priority", "assignedTo", "dueDate"\<newline>'' @
     ''3. ALL string values MUST be in double quotes: "high", "self", "2024-07-30"\<newline>'' @
     ''4. Use proper JSON syntax with commas between properties\<newline>'' @
     ''5. Do NOT use single quotes or unquoted values\<newline>'' @
     ''6. Do NOT include trailing commas\<newline>'' @
     ''7. Ensure all dates are in YYYY-MM-DD format\<newline>'' @
     ''\<newline>'' @
     ''Example format:\<newline>'' @
     ''[\<newline>'' @
     ''  {\<newline>'' @
     ''    "title": "Reply to client inquiry",\<newline>'' @
     ''    "description": "Respond to the client's question about project timeline",\<newline>'' @
     ''    "type": "response",\<newline>'' @
     ''    "priority": "high",\<newline>'' @
     ''    "assignedTo": "self",\<newline>'' @
     ''    "dueDate": "2024-07-30"\<newline>'' @
     ''  }\<newline>'' @
     '']\<newline>'' @
     ''\<newline>'' @
     ''Generate 2-4 tasks per email, focusing on the most important actions needed. Return ONLY the JSON array with proper double quotes and valid JSON syntax.''\<close>

definition task_messages :: "email list \<Rightarrow> chat_message list" where
  \<open>task_messages es =
     [(System, ''You are an AI task manager that analyzes emails and creates actionable tasks. You understand business workflows and can prioritize tasks based on email content, sender importance, and urgency. Always respond with valid JSON.''),
      (User, task_prompt (join ''\<newline>---\<newline>'' (map email_content es)))]\<close>

text \<open>
  Lines 95 to 120, the \<open>try\<close> and its \<open>catch\<close>: the tasks are what the helper returns,
  as they are; when the helper throws, the answer is an error with status 500.
\<close>

definition reconcile_tasks :: "response_parser \<Rightarrow> nat \<Rightarrow> string \<Rightarrow> http_response" where
  "reconcile_tasks parseAIResponse n_emails responseText =
     (case parseAIResponse responseText of
        Inr tasks \<Rightarrow>
          (200, TaskList tasks
             (''Successfully generated '' @ show_nat (length tasks) @ '' tasks from ''
                @ show_nat n_emails @ '' emails''))
      | Inl parseError \<Rightarrow>
          (500, ParseFailure ''Failed to parse AI response into valid tasks''
             (message_or ''Unknown parsing error'' parseError)
             (take 200 responseText @ ''...'')))"

text \<open>Lines 92 to 126: \<open>if (responseText) { ... } else { ... }\<close>\<close>

definition tasks_response :: "response_parser \<Rightarrow> nat \<Rightarrow> string option \<Rightarrow> http_response" where
  "tasks_response parseAIResponse n_emails responseText =
     (case responseText of
        None \<Rightarrow> (500, ErrorBody ''No response generated from AI'')
      | Some text \<Rightarrow>
          if text = [] then (500, ErrorBody ''No response generated from AI'')
          else reconcile_tasks parseAIResponse n_emails text)"

text \<open>
  \<open>POST\<close> of \<open>api/todo/generate-tasks/route.ts\<close>. The test of \<open>emails\<close> comes before
  the availability probe. \<open>tone\<close> is read from the request and then never used.
\<close>

definition generate_tasks_POST :: "response_parser \<Rightarrow> ollama \<Rightarrow> request
    \<Rightarrow> http_response \<times> backend_call list" where
  "generate_tasks_POST parseAIResponse backend req =
     (case emails req of
        None \<Rightarrow> ((400, ErrorBody ''No emails provided''), [])
      | Some es \<Rightarrow>
          if es = [] then ((400, ErrorBody ''No emails provided''), [])
          else
            (case list_models backend of
               Some ex \<Rightarrow> (unavailable, [ListCall])
             | None \<Rightarrow>
                 (let messages = task_messages es;
                      calls = [ListCall, ChatCall ''phi3'' messages]
                  in case chat backend ''phi3'' messages of
                       Inl ex \<Rightarrow>
                         ((500, ErrorDetails ''Failed to generate tasks''
                                  (message_or ''Unknown error'' ex)), calls)
                     | Inr responseText \<Rightarrow>
                         (tasks_response parseAIResponse (length es) responseText, calls))))"

subsection \<open>The page that calls the task route\<close>

text \<open>\<open>{...task}\<close>: the own properties of a value. An array and a string spread their
  elements under their indices; the other values that are not objects spread nothing.\<close>

fun spread :: "json \<Rightarrow> (string \<times> json) list" where
  "spread (JObj fs) = fs"
| "spread (JArr xs) = map (\<lambda>(i, x). (show_nat i, x)) (enumerate 0 xs)"
| "spread (JStr s) = map (\<lambda>(i, c). (show_nat i, JStr [c])) (enumerate 0 s)"
| "spread _ = []"

text \<open>
  The callback of \<open>data.tasks.map\<close> in \<open>generateTasksFromEmails\<close> (\<open>organize/page.tsx\<close>,
  the todo page): the task with \<open>id\<close>, \<open>createdAt\<close> and \<open>aiGenerated\<close> set. \<open>now\<close> is
  \<open>Date.now()\<close> and \<open>stamp\<close> is \<open>new Date().toISOString()\<close> at that moment.
\<close>

definition new_task :: "nat \<Rightarrow> string \<Rightarrow> nat \<Rightarrow> json \<Rightarrow> json" where
  "new_task now stamp index task =
     JObj (set_prop ''aiGenerated'' (JBool True)
            (set_prop ''createdAt'' (JStr stamp)
              (set_prop ''id'' (JStr (''task-'' @ show_nat now @ ''-'' @ show_nat index))
                (spread task))))"

definition new_tasks :: "(nat \<Rightarrow> nat) \<Rightarrow> (nat \<Rightarrow> string) \<Rightarrow> json list \<Rightarrow> json list" where
  "new_tasks now stamp data_tasks =
     map (\<lambda>(index, task). new_task (now index) (stamp index) index task) (enumerate 0 data_tasks)"

record todo_page =
  page_emails :: "email list"
  selectedEmails :: "string list"
  tasks :: "json list"
  selectedTone :: string

text \<open>What the page shows in an \<open>alert\<close> for a response that is not ok.\<close>

fun error_of :: "response_body \<Rightarrow> string" where
  "error_of (ErrorBody m) = m"
| "error_of (ErrorDetails m d) = m"
| "error_of (ParseFailure m d p) = m"
| "error_of _ = ''undefined''"

text \<open>\<open>generateTasksFromEmails\<close>: the page afterwards, and the alert if there is one.\<close>

definition generateTasksFromEmails :: "response_parser \<Rightarrow> ollama \<Rightarrow> (nat \<Rightarrow> nat)
    \<Rightarrow> (nat \<Rightarrow> string) \<Rightarrow> todo_page \<Rightarrow> todo_page \<times> string option" where
  "generateTasksFromEmails parseAIResponse backend now stamp page =
     (if selectedEmails page = [] then
        (page, Some ''Please select at least one email to generate tasks from.'')
      else
        (let selectedEmailData =
               filter (\<lambda>e. email_id e \<in> set (selectedEmails page)) (page_emails page);
             response = fst (generate_tasks_POST parseAIResponse backend
                          \<lparr>emails = Some selectedEmailData, tone = Some (selectedTone page)\<rparr>)
         in case response of
              (status, TaskList data_tasks message) \<Rightarrow>
                if 200 \<le> status \<and> status \<le> 299 then
                  (page\<lparr>tasks := tasks page @ new_tasks now stamp data_tasks,
                         selectedEmails := []\<rparr>, None)
                else (page, Some (''Error generating tasks: '' @ error_of (snd response)))
            | (status, b) \<Rightarrow> (page, Some (''Error generating tasks: '' @ error_of b))))"

section \<open>The draft route\<close>

record draft_request =
  draft_email :: "email option"
  draft_tone :: "string option"
  instructions :: "string option"

text \<open>\<open>tone || 'professional'\<close>: the default stands in for an absent or empty tone only.\<close>

definition tone_or_professional :: "string option \<Rightarrow> string" where
  "tone_or_professional t = or_else t ''professional''"

definition draft_prompt :: "email \<Rightarrow> string option \<Rightarrow> string option \<Rightarrow> string" where
  \<open>draft_prompt e t instr =
     ''Generate a professional email draft response based on the following context:\<newline>'' @
     ''\<newline>'' @
     ''ORIGINAL EMAIL:\<newline>'' @
     ''Subject: '' @ subject e @ ''\<newline>'' @
     ''From: '' @ sender e @ ''\<newline>'' @
     ''Date: '' @ date e @ ''\<newline>'' @
     ''Content: '' @ or_else (body e) (snippet e) @ ''\<newline>'' @
     ''Labels: '' @ join '', '' (labels e) @ ''\<newline>'' @
     ''Theme: '' @ or_else (theme e) ''uncategorized'' @ ''\<newline>'' @
     ''\<newline>'' @
     ''TONE REQUIREMENT: '' @ tone_or_professional t @ ''\<newline>'' @
     ''\<newline>'' @
     ''USER INSTRUCTIONS: '' @ or_else instr ''Generate a professional response'' @ ''\<newline>'' @
     ''\<newline>'' @
     ''Generate a draft email response that:\<newline>'' @
     ''1. Is contextually appropriate to the original email\<newline>'' @
     ''2. Matches the specified tone ('' @ tone_or_professional t @ '')\<newline>'' @
     ''3. Incorporates any user instructions provided\<newline>'' @
     ''4. Is well-structured and professional\<newline>'' @
     ''5. Can be easily edited by the user\<newline>'' @
     ''\<newline>'' @
     ''Format the response as a complete email draft with appropriate greeting, body, and closing.''\<close>

definition draft_messages :: "email \<Rightarrow> string option \<Rightarrow> string option \<Rightarrow> chat_message list" where
  "draft_messages e t instr =
     [(System, ''You are an expert email writer. Generate professional, contextual email responses that match the user's tone and requirements.''),
      (User, draft_prompt e t instr)]"

text \<open>\<open>POST\<close> of \<open>api/organize/draft/route.ts\<close>\<close>

definition draft_POST :: "ollama \<Rightarrow> draft_request \<Rightarrow> http_response \<times> backend_call list" where
  "draft_POST backend req =
     (case list_models backend of
        Some ex \<Rightarrow> (unavailable, [ListCall])
      | None \<Rightarrow>
          (case draft_email req of
             None \<Rightarrow> ((400, ErrorBody ''Email is required''), [ListCall])
           | Some e \<Rightarrow>
               (let messages = draft_messages e (draft_tone req) (instructions req);
                    calls = [ListCall, ChatCall ''phi3'' messages]
                in case chat backend ''phi3'' messages of
                     Inl ex \<Rightarrow> ((500, ErrorBody ''Failed to generate draft response''), calls)
                   | Inr content \<Rightarrow>
                       ((200, DraftBody (or_else content ''Unable to generate draft response.'')),
                        calls))))"

section \<open>The response helper\<close>

subsection \<open>JSON.parse\<close>

text \<open>
  \<open>JSON.parse\<close> is the platform's parser. It is modelled in two passes over the JSON
  grammar: a scanner that reads the text one character at a time, and a stack machine
  that reads the tokens one at a time. An escape \<open>\uXXXX\<close> of a code unit below 256, the
  range of the string model, gives that code unit; an escape of a code unit beyond the
  range is accepted, as \<open>JSON.parse\<close> accepts it, and gives the substitute character
  \<open>0x1A\<close> in its place. A later property with the same key replaces an earlier one.
\<close>

datatype token =
    LBracket | RBracket | LBrace | RBrace | Comma | Colon
  | TString string | TNumber string | TTrue | TFalse | TNull

definition is_space :: "char \<Rightarrow> bool" where
  "is_space c = (c = CHR '' '' \<or> c = CHR 0x09 \<or> c = CHR 0x0A \<or> c = CHR 0x0D)"

text \<open>The characters of a number or of one of the words \<open>true\<close>, \<open>false\<close>, \<open>null\<close>.\<close>

definition is_literal_char :: "char \<Rightarrow> bool" where
  "is_literal_char c =
     (is_digit c \<or> c \<in> set ''+-.'' \<or>
      (let n = (of_char c :: nat) in (65 \<le> n \<and> n \<le> 90) \<or> (97 \<le> n \<and> n \<le> 122)))"

text \<open>The JSON number grammar: sign, integer part without a leading zero, fraction, exponent.\<close>

definition valid_number :: "string \<Rightarrow> bool" where
  "valid_number s =
     (let s1 = (case s of c # r \<Rightarrow> (if c = CHR ''-'' then r else s) | [] \<Rightarrow> s);
          ip = takeWhile is_digit s1;
          r1 = dropWhile is_digit s1;
          has_frac = (r1 \<noteq> [] \<and> hd r1 = CHR ''.'');
          fp = (if has_frac then takeWhile is_digit (tl r1) else []);
          r2 = (if has_frac then dropWhile is_digit (tl r1) else r1);
          r3 = (case r2 of c # r \<Rightarrow> r | [] \<Rightarrow> []);
          r4 = (case r3 of c # r \<Rightarrow> (if c = CHR ''+'' \<or> c = CHR ''-'' then r else r3)
                | [] \<Rightarrow> r3)
      in ip \<noteq> [] \<and> (hd ip \<noteq> CHR ''0'' \<or> length ip = 1)
         \<and> (has_frac \<longrightarrow> fp \<noteq> [])
         \<and> (r2 \<noteq> [] \<longrightarrow>
               (hd r2 = CHR ''e'' \<or> hd r2 = CHR ''E'') \<and> r4 \<noteq> [] \<and> list_all is_digit r4))"

definition literal_token :: "string \<Rightarrow> token option" where
  "literal_token s =
     (if s = ''true'' then Some TTrue
      else if s = ''false'' then Some TFalse
      else if s = ''null'' then Some TNull
      else if valid_number s then Some (TNumber s)
      else None)"

definition hex_value :: "char \<Rightarrow> nat option" where
  "hex_value c =
     (let n = (of_char c :: nat)
      in if 48 \<le> n \<and> n \<le> 57 then Some (n - 48)
         else if 65 \<le> n \<and> n \<le> 70 then Some (n - 55)
         else if 97 \<le> n \<and> n \<le> 102 then Some (n - 87)
         else None)"

definition punctuation :: "char \<Rightarrow> token option" where
  "punctuation c =
     (if c = CHR ''['' then Some LBracket
      else if c = CHR '']'' then Some RBracket
      else if c = CHR ''{'' then Some LBrace
      else if c = CHR ''}'' then Some RBrace
      else if c = CHR '','' then Some Comma
      else if c = CHR '':'' then Some Colon
      else None)"

definition unescape :: "char \<Rightarrow> char option" where
  "unescape c =
     (if c = CHR 0x22 \<or> c = CHR 0x5C \<or> c = CHR ''/'' then Some c
      else if c = CHR ''b'' then Some (CHR 0x08)
      else if c = CHR ''f'' then Some (CHR 0x0C)
      else if c = CHR ''n'' then Some (CHR 0x0A)
      else if c = CHR ''r'' then Some (CHR 0x0D)
      else if c = CHR ''t'' then Some (CHR 0x09)
      else None)"

text \<open>Where the scanner is: between tokens, in a string, after a backslash, in the
  digits of a \<open>\u\<close> escape (with their value so far), or in a number or word.\<close>

datatype scan = Between | InString string | InEscape string | InHex string nat nat
  | InLiteral string

fun cons_token :: "token \<Rightarrow> token list option \<Rightarrow> token list option" where
  "cons_token t None = None"
| "cons_token t (Some ts) = Some (t # ts)"

fun scan_from :: "scan \<Rightarrow> string \<Rightarrow> token list option" where
  "scan_from Between [] = Some []"
| "scan_from (InLiteral acc) [] =
     (case literal_token acc of None \<Rightarrow> None | Some t \<Rightarrow> Some [t])"
| "scan_from _ [] = None"
| "scan_from Between (c # cs) =
     (if is_space c then scan_from Between cs
      else if c = CHR 0x22 then scan_from (InString []) cs
      else if is_literal_char c then scan_from (InLiteral [c]) cs
      else (case punctuation c of
              None \<Rightarrow> None
            | Some t \<Rightarrow> cons_token t (scan_from Between cs)))"
| "scan_from (InString acc) (c # cs) =
     (if c = CHR 0x22 then cons_token (TString acc) (scan_from Between cs)
      else if c = CHR 0x5C then scan_from (InEscape acc) cs
      else if (of_char c :: nat) < 32 then None
      else scan_from (InString (acc @ [c])) cs)"
| "scan_from (InEscape acc) (c # cs) =
     (if c = CHR ''u'' then scan_from (InHex acc 0 0) cs
      else (case unescape c of
              None \<Rightarrow> None
            | Some d \<Rightarrow> scan_from (InString (acc @ [d])) cs))"
| "scan_from (InHex acc k v) (c # cs) =
     (case hex_value c of
        None \<Rightarrow> None
      | Some h \<Rightarrow>
          if k < 3 then scan_from (InHex acc (Suc k) (16 * v + h)) cs
          else if 16 * v + h < 256 then scan_from (InString (acc @ [char_of (16 * v + h)])) cs
          else scan_from (InString (acc @ [CHR 0x1A])) cs)"
| "scan_from (InLiteral acc) (c # cs) =
     (if is_literal_char c then scan_from (InLiteral (acc @ [c])) cs
      else (case literal_token acc of
              None \<Rightarrow> None
            | Some t \<Rightarrow>
                if is_space c then cons_token t (scan_from Between cs)
                else (case punctuation c of
                        None \<Rightarrow> None
                      | Some p \<Rightarrow> cons_token t (cons_token p (scan_from Between cs)))))"

text \<open>
  The stack machine. A frame is an array or an object under construction; an object
  frame holds the key that waits for its value.
\<close>

datatype frame = ArrFrame "json list" | ObjFrame "(string \<times> json) list" "string option"

datatype expect = AValue | ValueOrClose | KeyOrClose | AKey | AColon | CommaOrClose

datatype machine = Failed | Finished json | Running expect "frame list"

text \<open>A value is complete: it is the result, an element, or the value of the waiting key.\<close>

fun put_value :: "json \<Rightarrow> frame list \<Rightarrow> machine" where
  "put_value v [] = Finished v"
| "put_value v (ArrFrame xs # st) = Running CommaOrClose (ArrFrame (xs @ [v]) # st)"
| "put_value v (ObjFrame fs (Some k) # st) =
     Running CommaOrClose (ObjFrame (set_prop k v fs) None # st)"
| "put_value v (ObjFrame fs None # st) = Failed"

fun scalar :: "token \<Rightarrow> json option" where
  "scalar (TString s) = Some (JStr s)"
| "scalar (TNumber s) = Some (JNum s)"
| "scalar TTrue = Some (JBool True)"
| "scalar TFalse = Some (JBool False)"
| "scalar TNull = Some JNull"
| "scalar _ = None"

fun start_value :: "token \<Rightarrow> frame list \<Rightarrow> machine" where
  "start_value LBracket st = Running ValueOrClose (ArrFrame [] # st)"
| "start_value LBrace st = Running KeyOrClose (ObjFrame [] None # st)"
| "start_value t st = (case scalar t of None \<Rightarrow> Failed | Some v \<Rightarrow> put_value v st)"

fun close_frame :: "token \<Rightarrow> frame list \<Rightarrow> machine" where
  "close_frame RBracket (ArrFrame xs # st) = put_value (JArr xs) st"
| "close_frame RBrace (ObjFrame fs None # st) = put_value (JObj fs) st"
| "close_frame _ _ = Failed"

fun take_key :: "token \<Rightarrow> frame list \<Rightarrow> machine" where
  "take_key (TString k) (ObjFrame fs None # st) = Running AColon (ObjFrame fs (Some k) # st)"
| "take_key _ _ = Failed"

fun step :: "machine \<Rightarrow> token \<Rightarrow> machine" where
  "step (Running AValue st) t = start_value t st"
| "step (Running ValueOrClose st) t =
     (if t = RBracket then close_frame t st else start_value t st)"
| "step (Running KeyOrClose st) t =
     (if t = RBrace then close_frame t st else take_key t st)"
| "step (Running AKey st) t = take_key t st"
| "step (Running AColon st) t = (if t = Colon then Running AValue st else Failed)"
| "step (Running CommaOrClose st) t =
     (if t = Comma then
        (case st of
           ArrFrame xs # r \<Rightarrow> Running AValue st
         | ObjFrame fs k # r \<Rightarrow> Running AKey st
         | [] \<Rightarrow> Failed)
      else close_frame t st)"
| "step (Finished v) t = Failed"
| "step Failed t = Failed"

definition JSON_parse :: "string \<Rightarrow> json option" where
  "JSON_parse text =
     (case scan_from Between text of
        None \<Rightarrow> None
      | Some ts \<Rightarrow>
          (case foldl step (Running AValue []) ts of
             Finished v \<Rightarrow> Some v
           | _ \<Rightarrow> None))"

subsection \<open>The helper, from the specification\<close>

text \<open>
  Modelled from the spec: \<open>parseAIResponse\<close> of \<open>lib/json-helper\<close>, which the two routes
  import and which is not among the source files. Section 4.3 gives its two phases. The
  extraction phase parses the text as a JSON array; if that fails, it repairs the text
  step by step and parses again after each repair, stopping at the first success; if every
  attempt fails, the result is the empty array and never an error. The validation phase
  then replaces, in each element, a free-text field that is missing or is not a string.
\<close>

definition parse_array :: "string \<Rightarrow> json list option" where
  "parse_array text = (case JSON_parse text of Some (JArr xs) \<Rightarrow> Some xs | _ \<Rightarrow> None)"

text \<open>Modelled from the spec: the first repair slices the text from its first \<open>[\<close> to
  its last \<open>]\<close>; a text without that pair stays as it is.\<close>

definition slice_brackets :: "string \<Rightarrow> string" where
  "slice_brackets text =
     (let from_first = dropWhile (\<lambda>c. c \<noteq> CHR ''['') text
      in if CHR '']'' \<in> set from_first
         then rev (dropWhile (\<lambda>c. c \<noteq> CHR '']'') (rev from_first))
         else text)"

text \<open>Modelled from the spec: the second repair strips the code-fence markers, three
  backquotes with or without the word \<open>json\<close> after them. \<open>skip\<close> counts the characters
  of a marker that are still to be dropped.\<close>

fun strip_fences :: "nat \<Rightarrow> string \<Rightarrow> string" where
  "strip_fences skip [] = []"
| "strip_fences (Suc skip) (c # cs) = strip_fences skip cs"
| "strip_fences 0 (c # cs) =
     (if prefix ''```json'' (c # cs) then strip_fences 6 cs
      else if prefix ''```'' (c # cs) then strip_fences 2 cs
      else c # strip_fences 0 cs)"

text \<open>Modelled from the spec: the third repair turns single quotes into double quotes,
  outside the strings that are double-quoted already. The flags say whether the scan is
  inside such a string, and whether it is just after a backslash there.\<close>

fun normalize_quotes :: "bool \<Rightarrow> bool \<Rightarrow> string \<Rightarrow> string" where
  "normalize_quotes inside escaped [] = []"
| "normalize_quotes True True (c # cs) = c # normalize_quotes True False cs"
| "normalize_quotes True False (c # cs) =
     (if c = CHR 0x5C then c # normalize_quotes True True cs
      else if c = CHR 0x22 then c # normalize_quotes False False cs
      else c # normalize_quotes True False cs)"
| "normalize_quotes False escaped (c # cs) =
     (if c = CHR 0x22 then c # normalize_quotes True False cs
      else if c = CHR 0x27 then CHR 0x22 # normalize_quotes False False cs
      else c # normalize_quotes False False cs)"

text \<open>Modelled from the spec: the fourth repair removes a comma that stands, white space
  apart, before a closing \<open>]\<close> or \<open>}\<close>.\<close>

definition before_close :: "string \<Rightarrow> bool" where
  "before_close cs =
     (case dropWhile is_space cs of
        [] \<Rightarrow> False
      | d # ds \<Rightarrow> d = CHR '']'' \<or> d = CHR ''}'')"

fun remove_trailing_commas :: "string \<Rightarrow> string" where
  "remove_trailing_commas [] = []"
| "remove_trailing_commas (c # cs) =
     (if c = CHR '','' \<and> before_close cs then remove_trailing_commas cs
      else c # remove_trailing_commas cs)"

text \<open>Modelled from the spec: the texts that are tried, in order, each repair applied to
  the text the repair before it gave.\<close>

definition attempts :: "string \<Rightarrow> string list" where
  "attempts text =
     (let t1 = slice_brackets text;
          t2 = strip_fences 0 t1;
          t3 = normalize_quotes False False t2;
          t4 = remove_trailing_commas t3
      in [text, t1, t2, t3, t4])"

fun first_array :: "string list \<Rightarrow> json list" where
  "first_array [] = []"
| "first_array (t # ts) = (case parse_array t of Some xs \<Rightarrow> xs | None \<Rightarrow> first_array ts)"

text \<open>
  Modelled from the spec: the validation phase, as far as a helper that is given the
  response text alone can do it. A free-text field (\<open>title\<close>, \<open>description\<close>,
  \<open>assignedTo\<close>) that is missing or is not a string is replaced with the empty string;
  an element that is not an object has no field and gets the three. The defaults of the
  enumerated fields depend on the target schema, and the placeholder title and the
  alignment on the emails of the batch; the helper is given neither.
\<close>

fun free_text :: "json option \<Rightarrow> json" where
  "free_text (Some (JStr s)) = JStr s"
| "free_text _ = JStr []"

fun fields_of :: "json \<Rightarrow> (string \<times> json) list" where
  "fields_of (JObj fs) = fs"
| "fields_of _ = []"

definition validate_element :: "json \<Rightarrow> json" where
  "validate_element c =
     (let fs = fields_of c
      in JObj (set_prop ''assignedTo'' (free_text (map_of fs ''assignedTo''))
                (set_prop ''description'' (free_text (map_of fs ''description''))
                  (set_prop ''title'' (free_text (map_of fs ''title'')) fs))))"

text \<open>Modelled from the spec: \<open>parseAIResponse\<close>, which returns an array for every text:
  the elements of the first array that parses, validated.\<close>

definition parseAIResponse :: response_parser where
  "parseAIResponse text = Inr (map validate_element (first_array (attempts text)))"

section \<open>Notions used to state the properties\<close>








text \<open>A title or description as \<open>extractThemeFromTask\<close> and \<open>extractCategoryFromTask\<close>
  declare it (\<open>title: string, description: string\<close>), or an absent one; and an element
  whose title and description are such.\<close>

fun text_or_absent :: "json option \<Rightarrow> bool" where
  "text_or_absent None = True"
| "text_or_absent (Some (JStr s)) = True"
| "text_or_absent (Some v) = False"

definition typed_element :: "json \<Rightarrow> bool" where
  "typed_element c =
     (text_or_absent (get_prop c ''title'') \<and> text_or_absent (get_prop c ''description''))"

text \<open>A record that is an email with its theme and category set, nothing else changed.\<close>

definition categorized_from :: "email \<Rightarrow> email \<Rightarrow> bool" where
  "categorized_from e r = (\<exists>t c. r = e\<lparr>theme := Some t, category := Some c\<rparr>)"


text \<open>A backend that is reachable and gives every chat the same reply.\<close>

definition replying :: "string option \<Rightarrow> ollama" where
  "replying reply = \<lparr>list_models = None, chat = (\<lambda>model messages. Inr reply)\<rparr>"

text \<open>A backend that cannot be reached: every call throws.\<close>

definition unreachable :: ollama where
  "unreachable =
     \<lparr>list_models = Some (JsError ''fetch failed''),
      chat = (\<lambda>model messages. Inl (JsError ''fetch failed''))\<rparr>"


text \<open>The tones that the specification recognises.\<close>

definition recognized_tones :: "string list" where
  "recognized_tones = [''formal'', ''informal'', ''professional'', ''friendly'', ''casual'']"

text \<open>An email to run the routes on.\<close>

definition mail :: "string \<Rightarrow> string \<Rightarrow> email" where
  "mail i s =
     \<lparr>email_id = i, subject = s, sender = ''ann@example.com'', date = ''2024-07-30'',
      snippet = ''Please see below'', body = None, labels = [''INBOX''],
      theme = None, category = None\<rparr>"

text \<open>A todo page with the emails of an inbox, all of them selected, and no task yet.\<close>

definition todo_page_of :: "email list \<Rightarrow> todo_page" where
  "todo_page_of es =
     \<lparr>page_emails = es, selectedEmails = map email_id es, tasks = [],
      selectedTone = ''professional''\<rparr>"

text \<open>A clock that stands still, for \<open>Date.now()\<close> and for \<open>toISOString()\<close>.\<close>

definition still :: "'a \<Rightarrow> nat \<Rightarrow> 'a" where
  "still v index = v"

text \<open>An inbox of \<open>n\<close> emails with the identifiers \<open>0\<close> to \<open>n - 1\<close>.\<close>

definition inbox :: "nat \<Rightarrow> email list" where
  "inbox n = map (\<lambda>k. mail (show_nat k) ''Weekly report'') [0..<n]"

section \<open>Properties of the keyword fallback\<close>


lemma task_text_case:
  "toLowerCase t = toLowerCase t' \<Longrightarrow> toLowerCase d = toLowerCase d' \<Longrightarrow>
   task_text t d = task_text t' d'"
  by (simp add: task_text_def toLowerCase_def)

text \<open>
  C4. The keyword fallback is the first-match lookup in the two ordered tables, on the
  text \<open>title description\<close> in lower case, with \<open>other\<close> and \<open>general\<close> for a text
  that matches no rule. A text that contains \<open>meeting\<close> gets the theme \<open>work\<close> and the
  category \<open>meeting\<close>; and titles and descriptions that differ in case only get the same
  theme and category.
\<close>

theorem keyword_fallback_first_match:
  "extractThemeFromTask title description =
     first_match theme_table ''other'' (toLowerCase (title @ '' '' @ description))
   \<and> extractCategoryFromTask title description =
     first_match category_table ''general'' (toLowerCase (title @ '' '' @ description))
   \<and> (str_includes (toLowerCase (title @ '' '' @ description)) ''meeting'' \<longrightarrow>
        extractThemeFromTask title description = ''work''
        \<and> extractCategoryFromTask title description = ''meeting'')
   \<and> ((\<forall>(k, l) \<in> set theme_table.
          \<not> str_includes (toLowerCase (title @ '' '' @ description)) k) \<longrightarrow>
        extractThemeFromTask title description = ''other''
        \<and> extractCategoryFromTask title description = ''general'')
   \<and> (toLowerCase title = toLowerCase title' \<and> toLowerCase description = toLowerCase description'
        \<longrightarrow> extractThemeFromTask title description = extractThemeFromTask title' description'
          \<and> extractCategoryFromTask title description =
              extractCategoryFromTask title' description')"
proof -
  let ?s = "toLowerCase (title @ '' '' @ description)"
  have th: "extractThemeFromTask title description = first_match theme_table ''other'' ?s"
    by (simp add: extractThemeFromTask_def task_text_def theme_table_def Let_def)
  have ca: "extractCategoryFromTask title description =
      first_match category_table ''general'' ?s"
    by (simp add: extractCategoryFromTask_def task_text_def category_table_def Let_def)
  have meet: "str_includes ?s ''meeting'' \<longrightarrow>
      extractThemeFromTask title description = ''work''
      \<and> extractCategoryFromTask title description = ''meeting''"
    by (simp add: extractThemeFromTask_def extractCategoryFromTask_def task_text_def Let_def)
  have none: "(\<forall>(k, l) \<in> set theme_table. \<not> str_includes ?s k) \<longrightarrow>
      extractThemeFromTask title description = ''other''
      \<and> extractCategoryFromTask title description = ''general''"
    by (simp add: extractThemeFromTask_def extractCategoryFromTask_def task_text_def
          theme_table_def Let_def)
  have cs: "toLowerCase title = toLowerCase title' \<and> toLowerCase description = toLowerCase description'
        \<longrightarrow> extractThemeFromTask title description = extractThemeFromTask title' description'
          \<and> extractCategoryFromTask title description =
              extractCategoryFromTask title' description'"
    using task_text_case [of title title' description description']
    by (simp add: extractThemeFromTask_def extractCategoryFromTask_def)
  show ?thesis using th ca meet none cs by blast
qed

theorem keyword_fallback_first_match_witness:
  "str_includes (toLowerCase (''Team MEETING'' @ '' '' @ ''at noon'')) ''meeting''
   \<and> extractThemeFromTask ''Team MEETING'' ''at noon'' = ''work''
   \<and> extractCategoryFromTask ''Team MEETING'' ''at noon'' = ''meeting''
   \<and> toLowerCase ''Team MEETING'' = toLowerCase ''team meeting''
   \<and> extractThemeFromTask ''Team MEETING'' ''at noon'' =
       extractThemeFromTask ''team meeting'' ''at noon''
   \<and> extractThemeFromTask ''Hello'' ''there'' = ''other''
   \<and> extractCategoryFromTask ''Hello'' ''there'' = ''general''"
proof -
  have h: "str_includes (toLowerCase (''Team MEETING'' @ '' '' @ ''at noon'')) ''meeting''"
    by code_simp
  have c: "toLowerCase ''Team MEETING'' = toLowerCase ''team meeting''
      \<and> toLowerCase ''at noon'' = toLowerCase ''at noon''"
    by code_simp
  have n: "\<forall>(k, l) \<in> set theme_table.
      \<not> str_includes (toLowerCase (''Hello'' @ '' '' @ ''there'')) k"
    by code_simp
  note m = keyword_fallback_first_match [of "''Team MEETING''" "''at noon''"
      "''team meeting''" "''at noon''"]
  note o = keyword_fallback_first_match [of "''Hello''" "''there''" "''Hello''" "''there''"]
  from m h have 1: "extractThemeFromTask ''Team MEETING'' ''at noon'' = ''work''
      \<and> extractCategoryFromTask ''Team MEETING'' ''at noon'' = ''meeting''" by blast
  from m c have 2: "extractThemeFromTask ''Team MEETING'' ''at noon'' =
       extractThemeFromTask ''team meeting'' ''at noon''" by blast
  from o n have 3: "extractThemeFromTask ''Hello'' ''there'' = ''other''
      \<and> extractCategoryFromTask ''Hello'' ''there'' = ''general''" by blast
  show ?thesis using h c 1 2 3 by blast
qed

section \<open>Properties of the categorize route\<close>

lemma merge_from_acc:
  "merge_from cat i batch acc =
     (acc @ fst (merge_from cat i batch []), snd (merge_from cat i batch []))"
proof (induction batch arbitrary: i acc)
  case Nil
  then show ?case by simp
next
  case (Cons e es)
  show ?case
  proof (cases "merge_one (js_index cat i) e")
    case (Inl ex)
    then show ?thesis by simp
  next
    case (Inr r)
    have "merge_from cat i (e # es) acc = merge_from cat (Suc i) es (acc @ [r])"
      using Inr by simp
    also have "\<dots> = ((acc @ [r]) @ fst (merge_from cat (Suc i) es []),
                     snd (merge_from cat (Suc i) es []))"
      by (rule Cons.IH)
    finally have l: "merge_from cat i (e # es) acc =
        (acc @ [r] @ fst (merge_from cat (Suc i) es []), snd (merge_from cat (Suc i) es []))"
      by simp
    have "merge_from cat i (e # es) [] = merge_from cat (Suc i) es [r]"
      using Inr by simp
    also have "\<dots> = ([r] @ fst (merge_from cat (Suc i) es []),
                     snd (merge_from cat (Suc i) es []))"
      by (rule Cons.IH)
    finally have r: "merge_from cat i (e # es) [] =
        ([r] @ fst (merge_from cat (Suc i) es []), snd (merge_from cat (Suc i) es []))" .
    show ?thesis by (simp only: l r fst_conv snd_conv)
  qed
qed

lemma reconcile_batch_acc:
  "reconcile_batch prs rt batch acc = acc @ reconcile_batch prs rt batch []"
  by (simp add: reconcile_batch_def merge_from_acc [of _ 0 batch acc]
           split: option.splits sum.splits prod.splits)




lemma categorize_loop_total:
  "(\<forall>m. \<exists>r. chat backend ''phi3'' m = Inr r) \<Longrightarrow>
   \<exists>out calls'. categorize_loop prs backend es i acc calls = (Inr out, calls')"
proof (induction prs backend es i acc calls rule: categorize_loop.induct)
  case (1 prs backend es i acc calls)
  show ?case
  proof (cases "i < length es")
    case False
    then show ?thesis by (subst categorize_loop.simps) simp
  next
    case True
    let ?batch = "slice es i (i + batchSize)"
    let ?msgs = "categorize_messages ?batch"
    from "1.prems" obtain rt where rt: "chat backend ''phi3'' ?msgs = Inr rt" by blast
    have eq: "categorize_loop prs backend es i acc calls =
          categorize_loop prs backend es (i + batchSize)
            (reconcile_batch prs rt ?batch acc) (calls @ [ChatCall ''phi3'' ?msgs])"
      using True rt by (subst categorize_loop.simps) (simp add: Let_def)
    show ?thesis
      using "1.IH" [OF True refl refl refl rt "1.prems"] eq by simp
  qed
qed


text \<open>
  C9. Reconciling a response text with a batch is deterministic: the records that the
  step adds are the same whatever \<open>categorizedEmails\<close> holds when it runs, so a second
  run on the same text and batch adds the same records once more.
\<close>

theorem reconciliation_deterministic:
  "reconcile_batch helper responseText batch acc =
     acc @ reconcile_batch helper responseText batch []
   \<and> reconcile_batch helper responseText batch
        (reconcile_batch helper responseText batch acc) =
     acc @ reconcile_batch helper responseText batch []
         @ reconcile_batch helper responseText batch []"
proof -
  have one: "reconcile_batch helper responseText batch a =
      a @ reconcile_batch helper responseText batch []" for a
    by (rule reconcile_batch_acc)
  have "reconcile_batch helper responseText batch
          (reconcile_batch helper responseText batch acc) =
        reconcile_batch helper responseText batch acc
          @ reconcile_batch helper responseText batch []"
    by (rule one)
  also have "\<dots> = (acc @ reconcile_batch helper responseText batch [])
          @ reconcile_batch helper responseText batch []"
    using one [of acc] by simp
  finally show ?thesis using one [of acc] by simp
qed

theorem reconciliation_deterministic_witness:
  \<open>reconcile_batch parseAIResponse (Some ''[{"title":"Team meeting"}]'') (inbox 2)
      [fallback_record (mail ''9'' ''Old news'')] =
    [fallback_record (mail ''9'' ''Old news''),
     (mail ''0'' ''Weekly report'')\<lparr>theme := Some ''work'', category := Some ''meeting''\<rparr>,
     fallback_record (mail ''1'' ''Weekly report'')]\<close>
proof -
  have e: \<open>reconcile_batch parseAIResponse (Some ''[{"title":"Team meeting"}]'') (inbox 2) [] =
    [(mail ''0'' ''Weekly report'')\<lparr>theme := Some ''work'', category := Some ''meeting''\<rparr>,
     fallback_record (mail ''1'' ''Weekly report'')]\<close>
    by code_simp
  from reconciliation_deterministic [of parseAIResponse
      \<open>Some ''[{"title":"Team meeting"}]''\<close> "inbox 2"
      "[fallback_record (mail ''9'' ''Old news'')]"]
  have \<open>reconcile_batch parseAIResponse (Some ''[{"title":"Team meeting"}]'') (inbox 2)
      [fallback_record (mail ''9'' ''Old news'')] =
    [fallback_record (mail ''9'' ''Old news'')]
      @ reconcile_batch parseAIResponse (Some ''[{"title":"Team meeting"}]'') (inbox 2) []\<close>
    by blast
  then show ?thesis by (simp only: e append.simps)
qed

lemma categorize_POST_ok:
  assumes "list_models backend = None" and "emails req = Some es"
    and "\<forall>m. \<exists>r. chat backend ''phi3'' m = Inr r"
  shows "fst (fst (categorize_POST helper backend req)) = 200"
proof -
  from categorize_loop_total [OF assms(3), of helper es 0 "[]" "[ListCall]"]
  obtain out calls where
    "categorize_loop helper backend es 0 [] [ListCall] = (Inr out, calls)"
    by blast
  with assms(1,2) show ?thesis by (simp add: categorize_POST_def)
qed















subsection \<open>What the records of a batch are\<close>

lemma fallback_record_from: "categorized_from e (fallback_record e)"
  by (auto simp: categorized_from_def fallback_record_def)

lemma merge_one_from: "merge_one c e = Inr r \<Longrightarrow> categorized_from e r"
  by (auto simp: merge_one_def categorized_from_def fallback_record_def Let_def
        split: option.splits if_splits sum.splits)

lemma merge_one_missing: "merge_one None e = Inr (fallback_record e)"
  by (simp add: merge_one_def)

lemma merge_from_records:
  "r \<in> set (fst (merge_from cat i batch [])) \<Longrightarrow> \<exists>e \<in> set batch. categorized_from e r"
proof (induction batch arbitrary: i)
  case Nil
  then show ?case by simp
next
  case (Cons e es)
  show ?case
  proof (cases "merge_one (js_index cat i) e")
    case (Inl ex)
    with Cons.prems show ?thesis by simp
  next
    case (Inr r')
    have "merge_from cat i (e # es) [] = merge_from cat (Suc i) es [r']"
      using Inr by simp
    then have "fst (merge_from cat i (e # es) []) = r' # fst (merge_from cat (Suc i) es [])"
      using merge_from_acc [of cat "Suc i" es "[r']"] by simp
    with Cons.prems have "r = r' \<or> r \<in> set (fst (merge_from cat (Suc i) es []))"
      by simp
    then show ?thesis
      using merge_one_from [OF Inr] Cons.IH by auto
  qed
qed

lemma reconcile_batch_records:
  assumes "r \<in> set (reconcile_batch helper rt batch [])"
  shows "\<exists>e \<in> set batch. categorized_from e r"
proof -
  have fb: "r \<in> set (map fallback_record batch) \<Longrightarrow> \<exists>e \<in> set batch. categorized_from e r"
    using fallback_record_from by auto
  show ?thesis
  proof (cases rt)
    case None
    with assms show ?thesis by (simp add: reconcile_batch_def)
  next
    case (Some t)
    show ?thesis
    proof (cases "t = []")
      case True
      with assms Some show ?thesis by (simp add: reconcile_batch_def)
    next
      case False
      show ?thesis
      proof (cases "helper t")
        case (Inl ex)
        with assms Some False fb show ?thesis by (simp add: reconcile_batch_def)
      next
        case (Inr cat)
        obtain out ex where m: "merge_from cat 0 batch [] = (out, ex)"
          by (cases "merge_from cat 0 batch []")
        with assms Some False Inr
        have "r \<in> set out \<or> r \<in> set (map fallback_record batch)"
          by (cases ex) (auto simp: reconcile_batch_def)
        then show ?thesis
          using fb merge_from_records [of r cat 0 batch] m by auto
      qed
    qed
  qed
qed

lemma merge_from_complete:
  "snd (merge_from cat i batch []) = None \<Longrightarrow>
   length (fst (merge_from cat i batch [])) = length batch
   \<and> (\<forall>k < length batch.
         merge_one (js_index cat (i + k)) (batch ! k) = Inr (fst (merge_from cat i batch []) ! k))"
proof (induction batch arbitrary: i)
  case Nil
  then show ?case by simp
next
  case (Cons e es)
  show ?case
  proof (cases "merge_one (js_index cat i) e")
    case (Inl ex)
    with Cons.prems show ?thesis by simp
  next
    case (Inr r')
    have step: "merge_from cat i (e # es) [] =
        (r' # fst (merge_from cat (Suc i) es []), snd (merge_from cat (Suc i) es []))"
      using Inr merge_from_acc [of cat "Suc i" es "[r']"] by simp
    with Cons.prems have "snd (merge_from cat (Suc i) es []) = None" by simp
    from Cons.IH [OF this] have
      len: "length (fst (merge_from cat (Suc i) es [])) = length es" and
      el: "\<And>k. k < length es \<Longrightarrow>
        merge_one (js_index cat (Suc i + k)) (es ! k) = Inr (fst (merge_from cat (Suc i) es []) ! k)"
      by auto
    show ?thesis
    proof (intro conjI allI impI)
      show "length (fst (merge_from cat i (e # es) [])) = length (e # es)"
        using step len by simp
    next
      fix k assume "k < length (e # es)"
      then show "merge_one (js_index cat (i + k)) ((e # es) ! k) =
          Inr (fst (merge_from cat i (e # es) []) ! k)"
        using step Inr el [of "k - 1"] by (cases k) simp_all
    qed
  qed
qed

lemma reconcile_batch_complete:
  assumes "rt \<noteq> []" and "helper rt = Inr cat" and "snd (merge_from cat 0 batch []) = None"
  shows "length (reconcile_batch helper (Some rt) batch []) = length batch
    \<and> (\<forall>k < length batch.
          categorized_from (batch ! k) (reconcile_batch helper (Some rt) batch [] ! k)
          \<and> (length cat \<le> k \<longrightarrow>
                reconcile_batch helper (Some rt) batch [] ! k = fallback_record (batch ! k)))"
proof -
  have out: "reconcile_batch helper (Some rt) batch [] = fst (merge_from cat 0 batch [])"
    using assms by (auto simp add: reconcile_batch_def split: prod.splits)
  from merge_from_complete [OF assms(3)] have
    len: "length (fst (merge_from cat 0 batch [])) = length batch" and
    el: "\<And>k. k < length batch \<Longrightarrow>
      merge_one (js_index cat k) (batch ! k) = Inr (fst (merge_from cat 0 batch []) ! k)"
    by auto
  show ?thesis
  proof (intro conjI allI impI)
    show "length (reconcile_batch helper (Some rt) batch []) = length batch"
      using out len by simp
  next
    fix k assume "k < length batch"
    from merge_one_from [OF el [OF this]]
    show "categorized_from (batch ! k) (reconcile_batch helper (Some rt) batch [] ! k)"
      using out by simp
  next
    fix k assume k: "k < length batch" and "length cat \<le> k"
    then have "js_index cat k = None" by (simp add: js_index_def)
    with el [OF k] show "reconcile_batch helper (Some rt) batch [] ! k = fallback_record (batch ! k)"
      using out by (simp add: merge_one_missing)
  qed
qed

lemma categorize_loop_records:
  "categorize_loop prs backend es i acc calls = (Inr out, calls') \<Longrightarrow>
   \<forall>r \<in> set out. r \<in> set acc \<or> (\<exists>e \<in> set es. categorized_from e r)"
proof (induction prs backend es i acc calls rule: categorize_loop.induct)
  case (1 prs backend es i acc calls)
  show ?case
  proof (cases "i < length es")
    case False
    with "1.prems" show ?thesis by (subst (asm) categorize_loop.simps) simp
  next
    case True
    let ?batch = "slice es i (i + batchSize)"
    let ?msgs = "categorize_messages ?batch"
    have sub: "set ?batch \<subseteq> set es"
      by (metis slice_def set_take_subset set_drop_subset subset_trans)
    show ?thesis
    proof (cases "chat backend ''phi3'' ?msgs")
      case (Inl ex)
      with "1.prems" True show ?thesis
        by (subst (asm) categorize_loop.simps) (simp add: Let_def)
    next
      case (Inr rt)
      with "1.prems" True have eq: "categorize_loop prs backend es (i + batchSize)
            (reconcile_batch prs rt ?batch acc) (calls @ [ChatCall ''phi3'' ?msgs])
          = (Inr out, calls')"
        by (subst (asm) categorize_loop.simps) (simp add: Let_def)
      from "1.IH" [OF True refl refl refl Inr eq]
      have ih: "\<forall>r \<in> set out. r \<in> set (reconcile_batch prs rt ?batch acc)
          \<or> (\<exists>e \<in> set es. categorized_from e r)" .
      show ?thesis
      proof
        fix r assume "r \<in> set out"
        with ih have "r \<in> set (reconcile_batch prs rt ?batch acc)
            \<or> (\<exists>e \<in> set es. categorized_from e r)" by blast
        then show "r \<in> set acc \<or> (\<exists>e \<in> set es. categorized_from e r)"
        proof
          assume "r \<in> set (reconcile_batch prs rt ?batch acc)"
          then have "r \<in> set acc \<or> r \<in> set (reconcile_batch prs rt ?batch [])"
            using reconcile_batch_acc [of prs rt ?batch acc] by auto
          then show ?thesis
            using reconcile_batch_records [of r prs rt ?batch] sub by blast
        qed blast
      qed
    qed
  qed
qed

lemma categorize_POST_records:
  assumes "categorize_POST helper backend req = ((status, Categorized out), calls)"
    and "emails req = Some es"
  shows "\<forall>r \<in> set out. \<exists>e \<in> set es. categorized_from e r"
proof -
  from assms have up: "list_models backend = None"
    by (auto simp: categorize_POST_def unavailable_def split: option.splits)
  obtain res calls' where loop:
    "categorize_loop helper backend es 0 [] [ListCall] = (res, calls')"
    by (cases "categorize_loop helper backend es 0 [] [ListCall]")
  with assms up have "res = Inr out"
    by (cases res) (simp_all add: categorize_POST_def)
  with loop categorize_loop_records [of helper backend es 0 "[]" "[ListCall]" out calls']
  show ?thesis by simp
qed

subsection \<open>One record per email\<close>

lemma map_of_set_prop:
  "map_of (set_prop k v fs) k' = (if k' = k then Some v else map_of fs k')"
  by (induction fs) auto

lemma template_arg_text: "text_or_absent v \<Longrightarrow> \<exists>s. template_arg v = Inr s"
  by (induction v rule: text_or_absent.induct) simp_all

lemma merge_one_typed:
  assumes "\<And>c. categorized = Some c \<Longrightarrow> typed_element c"
  shows "\<exists>r. merge_one categorized e = Inr r"
proof (cases categorized)
  case None
  then show ?thesis by (simp add: merge_one_def)
next
  case (Some c)
  from assms [OF Some] have ty: "text_or_absent (get_prop c ''title'')"
    "text_or_absent (get_prop c ''description'')"
    by (simp_all add: typed_element_def)
  from template_arg_text [OF ty(1)] obtain t where
    "template_arg (get_prop c ''title'') = Inr t" by blast
  moreover from template_arg_text [OF ty(2)] obtain d where
    "template_arg (get_prop c ''description'') = Inr d" by blast
  ultimately show ?thesis
    using Some
    by (simp add: merge_one_def extractThemeFromTask_js_def extractCategoryFromTask_js_def
          Let_def)
qed

lemma merge_from_typed:
  "list_all typed_element cat \<Longrightarrow> snd (merge_from cat i batch acc) = None"
proof (induction batch arbitrary: i acc)
  case Nil
  then show ?case by simp
next
  case (Cons e es)
  have "\<And>c. js_index cat i = Some c \<Longrightarrow> typed_element c"
    using Cons.prems by (auto simp: js_index_def list_all_length split: if_splits)
  from merge_one_typed [OF this] obtain r where "merge_one (js_index cat i) e = Inr r"
    by blast
  then show ?case using Cons.IH [OF Cons.prems] by simp
qed

lemma reconcile_batch_typed:
  assumes "\<forall>t cat. helper t = Inr cat \<longrightarrow> list_all typed_element cat" and "rt \<noteq> []"
  shows "length (reconcile_batch helper (Some rt) b []) = length b
    \<and> (\<forall>k < length b.
          categorized_from (b ! k) (reconcile_batch helper (Some rt) b [] ! k)
          \<and> (\<forall>cat. helper rt = Inr cat \<longrightarrow> length cat \<le> k \<longrightarrow>
                reconcile_batch helper (Some rt) b [] ! k = fallback_record (b ! k))
          \<and> (\<forall>ex. helper rt = Inl ex \<longrightarrow>
                reconcile_batch helper (Some rt) b [] ! k = fallback_record (b ! k)))"
proof (cases "helper rt")
  case (Inl ex)
  then have "reconcile_batch helper (Some rt) b [] = map fallback_record b"
    using assms(2) by (simp add: reconcile_batch_def)
  then show ?thesis using Inl by (simp add: fallback_record_from)
next
  case (Inr cat)
  with assms(1) have "list_all typed_element cat" by blast
  from reconcile_batch_complete [where helper = helper and rt = rt and cat = cat
      and batch = b, OF assms(2) Inr merge_from_typed [OF this, of 0 b "[]"]]
  show ?thesis using Inr by auto
qed




lemma free_text_text: "text_or_absent (Some (free_text v))"
  by (induction v rule: free_text.induct) simp_all

lemma validate_element_typed: "typed_element (validate_element c)"
  by (simp add: typed_element_def validate_element_def Let_def map_of_set_prop free_text_text)

lemma parseAIResponse_typed:
  "parseAIResponse t = Inr cat \<Longrightarrow> list_all typed_element cat"
  by (auto simp: parseAIResponse_def list_all_iff validate_element_typed)




subsection \<open>The records keep the emails and their order\<close>

lemma reconcile_batch_ordered:
  assumes "\<forall>t cat. helper t = Inr cat \<longrightarrow> list_all typed_element cat"
  shows "\<exists>sub. subseq sub b
    \<and> list_all2 categorized_from sub (reconcile_batch helper responseText b [])"
proof (cases "\<exists>rt. responseText = Some rt \<and> rt \<noteq> []")
  case False
  then have "reconcile_batch helper responseText b [] = []"
    by (cases responseText) (auto simp: reconcile_batch_def)
  then show ?thesis by (intro exI [of _ "[]"]) simp
next
  case True
  then obtain rt where rt: "responseText = Some rt" "rt \<noteq> []" by blast
  from reconcile_batch_typed [OF assms rt(2), of b]
  have "list_all2 categorized_from b (reconcile_batch helper (Some rt) b [])"
    by (simp add: list_all2_conv_all_nth)
  then show ?thesis using rt(1) by (intro exI [of _ b]) simp
qed

lemma categorize_loop_ordered:
  assumes "\<forall>t cat. helper t = Inr cat \<longrightarrow> list_all typed_element cat"
    and "categorize_loop helper backend es i acc calls = (Inr out, calls')"
  shows "\<exists>rs sub. out = acc @ rs \<and> subseq sub (drop i es)
    \<and> list_all2 categorized_from sub rs"
  using assms
proof (induction helper backend es i acc calls rule: categorize_loop.induct)
  case (1 helper backend es i acc calls)
  show ?case
  proof (cases "i < length es")
    case False
    with "1.prems"(2) have "out = acc"
      by (subst (asm) categorize_loop.simps) simp
    then show ?thesis by (intro exI [of _ "[]"]) simp
  next
    case True
    let ?b = "slice es i (i + batchSize)"
    let ?msgs = "categorize_messages ?b"
    show ?thesis
    proof (cases "chat backend ''phi3'' ?msgs")
      case (Inl ex)
      with "1.prems"(2) True show ?thesis
        by (subst (asm) categorize_loop.simps) (simp add: Let_def)
    next
      case (Inr rt)
      with "1.prems"(2) True have eq: "categorize_loop helper backend es (i + batchSize)
            (reconcile_batch helper rt ?b acc) (calls @ [ChatCall ''phi3'' ?msgs])
          = (Inr out, calls')"
        by (subst (asm) categorize_loop.simps) (simp add: Let_def)
      from "1.IH" [OF True refl refl refl Inr "1.prems"(1) eq]
      obtain rs sub where ih: "out = reconcile_batch helper rt ?b acc @ rs"
          "subseq sub (drop (i + batchSize) es)" "list_all2 categorized_from sub rs"
        by blast
      from reconcile_batch_ordered [OF "1.prems"(1), of ?b rt]
      obtain sb where sb: "subseq sb ?b"
          "list_all2 categorized_from sb (reconcile_batch helper rt ?b [])"
        by blast
      have split: "?b @ drop (i + batchSize) es = drop i es"
        by (simp add: slice_def add.commute [of i batchSize] drop_drop [symmetric]
              del: drop_drop)
      have "out = acc @ (reconcile_batch helper rt ?b [] @ rs)"
        using ih(1) reconcile_batch_acc [of helper rt ?b acc] by simp
      moreover have "subseq (sb @ sub) (drop i es)"
        using list_emb_append_mono [OF sb(1) ih(2)] split by simp
      moreover have "list_all2 categorized_from (sb @ sub)
          (reconcile_batch helper rt ?b [] @ rs)"
        using sb(2) ih(3) by (rule list_all2_appendI)
      ultimately show ?thesis by blast
    qed
  qed
qed

text \<open>
  C10. When the elements that the helper returns have a title and a description that are
  strings or absent, the records of a categorize answer are, in input order, records of
  emails of the input: there is a subsequence of the input list (the emails of the batches
  whose response text was not empty) such that each output record is the email at the
  same place of that subsequence with its theme and category set, and every other field
  (id, subject, sender, date, snippet, body, labels) as in the email.
\<close>

theorem categorize_frame_and_order:
  assumes "categorize_POST helper backend req = ((status, Categorized out), calls)"
    and "emails req = Some es"
    and "\<forall>t cat. helper t = Inr cat \<longrightarrow> list_all typed_element cat"
  shows "\<exists>sub. subseq sub es \<and> list_all2 categorized_from sub out"
proof -
  from assms(1,2) have up: "list_models backend = None"
    by (auto simp: categorize_POST_def unavailable_def split: option.splits)
  obtain res calls' where loop:
    "categorize_loop helper backend es 0 [] [ListCall] = (res, calls')"
    by (cases "categorize_loop helper backend es 0 [] [ListCall]")
  with assms(1,2) up have "res = Inr out"
    by (cases res) (simp_all add: categorize_POST_def)
  with loop categorize_loop_ordered [OF assms(3), of backend es 0 "[]" "[ListCall]" out calls']
  show ?thesis by simp
qed

theorem categorize_frame_and_order_witness:
  \<open>emails \<lparr>emails = Some (inbox 3), tone = None\<rparr> = Some (inbox 3)
   \<and> fst (categorize_POST parseAIResponse
        (replying (Some ''[{"title":"Pay the bill","description":5},{"title":"Book a flight"}]''))
        \<lparr>emails = Some (inbox 3), tone = None\<rparr>) =
     (200, Categorized
        [(mail ''0'' ''Weekly report'')\<lparr>theme := Some ''finance'', category := Some ''general''\<rparr>,
         (mail ''1'' ''Weekly report'')\<lparr>theme := Some ''travel'', category := Some ''general''\<rparr>,
         (mail ''2'' ''Weekly report'')\<lparr>theme := Some ''other'', category := Some ''general''\<rparr>])
   \<and> (\<exists>sub. subseq sub (inbox 3)
         \<and> list_all2 categorized_from sub
        [(mail ''0'' ''Weekly report'')\<lparr>theme := Some ''finance'', category := Some ''general''\<rparr>,
         (mail ''1'' ''Weekly report'')\<lparr>theme := Some ''travel'', category := Some ''general''\<rparr>,
         (mail ''2'' ''Weekly report'')\<lparr>theme := Some ''other'', category := Some ''general''\<rparr>])\<close>
proof -
  let ?post = \<open>categorize_POST parseAIResponse
        (replying (Some ''[{"title":"Pay the bill","description":5},{"title":"Book a flight"}]''))
        \<lparr>emails = Some (inbox 3), tone = None\<rparr>\<close>
  let ?out = "[(mail ''0'' ''Weekly report'')\<lparr>theme := Some ''finance'', category := Some ''general''\<rparr>,
         (mail ''1'' ''Weekly report'')\<lparr>theme := Some ''travel'', category := Some ''general''\<rparr>,
         (mail ''2'' ''Weekly report'')\<lparr>theme := Some ''other'', category := Some ''general''\<rparr>]"
  have a: "emails \<lparr>emails = Some (inbox 3), tone = None\<rparr> = Some (inbox 3)"
    by simp
  have d: "\<forall>t cat. parseAIResponse t = Inr cat \<longrightarrow> list_all typed_element cat"
    using parseAIResponse_typed by blast
  have e: "fst ?post = (200, Categorized ?out)"
    by code_simp
  have run: "?post = ((200, Categorized ?out), snd ?post)"
    by (simp only: e [symmetric] prod.collapse)
  from categorize_frame_and_order [OF run a d]
  have "\<exists>sub. subseq sub (inbox 3) \<and> list_all2 categorized_from sub ?out" .
  with a e show ?thesis by blast
qed

section \<open>Properties of the task route\<close>

lemma reconcile_tasks_status:
  "fst (reconcile_tasks helper n text) = (case helper text of Inl ex \<Rightarrow> 500 | Inr ts \<Rightarrow> 200)"
  by (simp add: reconcile_tasks_def split: sum.splits)

lemma reconcile_batch_helper_throws:
  "helper text = Inl ex \<Longrightarrow> text \<noteq> [] \<Longrightarrow>
   reconcile_batch helper (Some text) batch acc = acc @ map fallback_record batch"
  by (simp add: reconcile_batch_def)


lemma show_nat_digits: "set (show_nat n) \<subseteq> set ''0123456789''"
proof (induction n rule: show_nat.induct)
  case (1 n)
  have d: "k < 10 \<Longrightarrow> ''0123456789'' ! k \<in> set ''0123456789''" for k
    by (rule nth_mem) simp
  show ?case
  proof (cases "n < 10")
    case True
    then show ?thesis using d [of n] by (subst show_nat.simps) simp
  next
    case False
    then show ?thesis
      using "1.IH" d [of "n mod 10"] by (subst show_nat.simps) simp
  qed
qed

lemma show_nat_not_emailId: "show_nat n \<noteq> ''emailId''"
proof
  assume "show_nat n = ''emailId''"
  then have "CHR ''e'' \<in> set (show_nat n)" by simp
  with show_nat_digits [of n] show False by auto
qed

lemma map_of_index_keys:
  "map_of (map (\<lambda>(i, x). (show_nat i, f x)) (enumerate n xs)) ''emailId'' = None"
  by (induction xs arbitrary: n) (auto simp: show_nat_not_emailId [symmetric])

lemma spread_emailId: "map_of (spread t) ''emailId'' = get_prop t ''emailId''"
proof (cases t)
  case (JArr xs)
  then show ?thesis using map_of_index_keys [of "\<lambda>x. x" 0 xs] by simp
next
  case (JStr s)
  then show ?thesis using map_of_index_keys [of "\<lambda>c. JStr [c]" 0 s] by simp
qed simp_all

lemma new_task_emailId:
  "get_prop (new_task now stamp index t) ''emailId'' = get_prop t ''emailId''"
  by (simp add: new_task_def map_of_set_prop spread_emailId)

lemma map_enumerate_snd: "map (\<lambda>(i, x). f x) (enumerate n xs) = map f xs"
  by (induction xs arbitrary: n) auto

lemma new_tasks_emailId:
  "map (\<lambda>t. get_prop t ''emailId'') (new_tasks now stamp ts) =
   map (\<lambda>t. get_prop t ''emailId'') ts"
proof -
  have "map (\<lambda>t. get_prop t ''emailId'') (new_tasks now stamp ts) =
      map (\<lambda>(i, t). get_prop t ''emailId'') (enumerate 0 ts)"
    by (simp add: new_tasks_def new_task_emailId split_def)
  then show ?thesis by (simp add: map_enumerate_snd)
qed


lemma length_new_tasks: "length (new_tasks now stamp ts) = length ts"
  by (simp add: new_tasks_def)

lemma new_tasks_nth:
  "i < length ts \<Longrightarrow> new_tasks now stamp ts ! i = new_task (now i) (stamp i) i (ts ! i)"
  by (simp add: new_tasks_def nth_enumerate_eq)

lemma get_prop_new_task:
  "get_prop (new_task n s i t) k =
     (if k = ''aiGenerated'' then Some (JBool True)
      else if k = ''createdAt'' then Some (JStr s)
      else if k = ''id'' then Some (JStr (''task-'' @ show_nat n @ ''-'' @ show_nat i))
      else map_of (spread t) k)"
  by (simp add: new_task_def map_of_set_prop)

lemma generateTasksFromEmails_ok:
  assumes "selectedEmails page \<noteq> []"
    and "generate_tasks_POST helper backend
           \<lparr>emails = Some (filter (\<lambda>e. email_id e \<in> set (selectedEmails page))
                               (page_emails page)),
            tone = Some (selectedTone page)\<rparr> = ((200, TaskList ts message), calls)"
  shows "generateTasksFromEmails helper backend now stamp page =
     (page\<lparr>tasks := tasks page @ new_tasks now stamp ts, selectedEmails := []\<rparr>, None)"
  using assms by (simp add: generateTasksFromEmails_def Let_def)

text \<open>
  C3. The task route assigns no \<open>emailId\<close>. The tasks of a 200 answer are the array
  that the helper returned for the response text, which it got without the emails. The
  page appends one task for each element of that array, in order: an object with the
  element's own properties, except that \<open>id\<close> is \<open>task-\<close>, the time and the index,
  \<open>createdAt\<close> is the time stamp and \<open>aiGenerated\<close> is true. So the \<open>emailId\<close> of each
  task on the page is that of the element, present or absent.
\<close>

theorem tasks_returned_as_parsed:
  assumes "generate_tasks_POST helper backend req = ((200, TaskList ts message), calls)"
  shows "(\<exists>es rt. emails req = Some es
            \<and> chat backend ''phi3'' (task_messages es) = Inr (Some rt)
            \<and> helper rt = Inr ts)
    \<and> length (new_tasks now stamp ts) = length ts
    \<and> (\<forall>i < length ts. \<forall>k.
          get_prop (new_tasks now stamp ts ! i) k =
            (if k = ''aiGenerated'' then Some (JBool True)
             else if k = ''createdAt'' then Some (JStr (stamp i))
             else if k = ''id'' then
               Some (JStr (''task-'' @ show_nat (now i) @ ''-'' @ show_nat i))
             else map_of (spread (ts ! i)) k))
    \<and> map (\<lambda>t. get_prop t ''emailId'') (new_tasks now stamp ts) =
        map (\<lambda>t. get_prop t ''emailId'') ts
    \<and> (\<forall>page :: todo_page.
          selectedEmails page \<noteq> []
          \<longrightarrow> req = \<lparr>emails = Some (filter (\<lambda>e. email_id e \<in> set (selectedEmails page))
                                       (page_emails page)),
                     tone = Some (selectedTone page)\<rparr>
          \<longrightarrow> generateTasksFromEmails helper backend now stamp page =
                (page\<lparr>tasks := tasks page @ new_tasks now stamp ts, selectedEmails := []\<rparr>,
                 None))"
proof -
  from assms obtain es where es: "emails req = Some es" "es \<noteq> []"
    by (auto simp: generate_tasks_POST_def split: option.splits if_splits)
  from assms es have up: "list_models backend = None"
    by (auto simp: generate_tasks_POST_def unavailable_def split: option.splits)
  from assms es up obtain rt where
    rt: "chat backend ''phi3'' (task_messages es) = Inr (Some rt)"
      and resp: "reconcile_tasks helper (length es) rt = (200, TaskList ts message)"
    by (auto simp: generate_tasks_POST_def tasks_response_def Let_def
          split: sum.splits option.splits if_splits)
  from resp have "helper rt = Inr ts"
    by (auto simp: reconcile_tasks_def split: sum.splits)
  with es rt have one: "\<exists>es rt. emails req = Some es
            \<and> chat backend ''phi3'' (task_messages es) = Inr (Some rt)
            \<and> helper rt = Inr ts"
    by blast
  have two: "length (new_tasks now stamp ts) = length ts"
    by (rule length_new_tasks)
  have three: "\<forall>i < length ts. \<forall>k.
          get_prop (new_tasks now stamp ts ! i) k =
            (if k = ''aiGenerated'' then Some (JBool True)
             else if k = ''createdAt'' then Some (JStr (stamp i))
             else if k = ''id'' then
               Some (JStr (''task-'' @ show_nat (now i) @ ''-'' @ show_nat i))
             else map_of (spread (ts ! i)) k)"
    by (simp add: new_tasks_nth get_prop_new_task)
  have four: "map (\<lambda>t. get_prop t ''emailId'') (new_tasks now stamp ts) =
        map (\<lambda>t. get_prop t ''emailId'') ts"
    by (rule new_tasks_emailId)
  have five: "\<forall>page :: todo_page.
          selectedEmails page \<noteq> []
          \<longrightarrow> req = \<lparr>emails = Some (filter (\<lambda>e. email_id e \<in> set (selectedEmails page))
                                       (page_emails page)),
                     tone = Some (selectedTone page)\<rparr>
          \<longrightarrow> generateTasksFromEmails helper backend now stamp page =
                (page\<lparr>tasks := tasks page @ new_tasks now stamp ts, selectedEmails := []\<rparr>,
                 None)"
    using assms generateTasksFromEmails_ok [of _ helper backend ts message calls now stamp]
    by blast
  show ?thesis
    by (intro conjI) (rule one, rule two, rule three, rule four, rule five)
qed

theorem tasks_returned_as_parsed_witness:
  \<open>fst (generate_tasks_POST parseAIResponse
      (replying (Some ''[{"title":"Reply","emailId":"no-such-email"}]''))
      \<lparr>emails = Some (inbox 1), tone = Some ''professional''\<rparr>) =
     (200, TaskList [JObj [(''title'', JStr ''Reply''), (''emailId'', JStr ''no-such-email''),
              (''description'', JStr ''''), (''assignedTo'', JStr '''')]]
              ''Successfully generated 1 tasks from 1 emails'')
   \<and> length (new_tasks (still 5) (still ''2024-07-30T09:00:00.000Z'')
           [JObj [(''title'', JStr ''Reply''), (''emailId'', JStr ''no-such-email''),
              (''description'', JStr ''''), (''assignedTo'', JStr '''')]]) = 1
   \<and> get_prop (new_tasks (still 5) (still ''2024-07-30T09:00:00.000Z'')
           [JObj [(''title'', JStr ''Reply''), (''emailId'', JStr ''no-such-email''),
              (''description'', JStr ''''), (''assignedTo'', JStr '''')]] ! 0) ''id'' =
      Some (JStr ''task-5-0'')
   \<and> get_prop (new_tasks (still 5) (still ''2024-07-30T09:00:00.000Z'')
           [JObj [(''title'', JStr ''Reply''), (''emailId'', JStr ''no-such-email''),
              (''description'', JStr ''''), (''assignedTo'', JStr '''')]] ! 0) ''title'' =
      Some (JStr ''Reply'')
   \<and> map (\<lambda>t. get_prop t ''emailId'')
        (new_tasks (still 5) (still ''2024-07-30T09:00:00.000Z'')
           [JObj [(''title'', JStr ''Reply''), (''emailId'', JStr ''no-such-email''),
              (''description'', JStr ''''), (''assignedTo'', JStr '''')]]) =
      [Some (JStr ''no-such-email'')]
   \<and> generateTasksFromEmails parseAIResponse
        (replying (Some ''[{"title":"Reply","emailId":"no-such-email"}]''))
        (still 5) (still ''2024-07-30T09:00:00.000Z'') (todo_page_of (inbox 1)) =
      ((todo_page_of (inbox 1))
         \<lparr>tasks := tasks (todo_page_of (inbox 1))
            @ new_tasks (still 5) (still ''2024-07-30T09:00:00.000Z'')
                [JObj [(''title'', JStr ''Reply''), (''emailId'', JStr ''no-such-email''),
                   (''description'', JStr ''''), (''assignedTo'', JStr '''')]],
          selectedEmails := []\<rparr>, None)\<close>
proof -
  let ?req = "\<lparr>emails = Some (inbox 1), tone = Some ''professional''\<rparr>"
  let ?b = \<open>replying (Some ''[{"title":"Reply","emailId":"no-such-email"}]'')\<close>
  let ?post = "generate_tasks_POST parseAIResponse ?b ?req"
  let ?ts = "[JObj [(''title'', JStr ''Reply''), (''emailId'', JStr ''no-such-email''),
              (''description'', JStr ''''), (''assignedTo'', JStr '''')]]"
  let ?page = "todo_page_of (inbox 1)"
  have e: \<open>fst ?post = (200, TaskList ?ts ''Successfully generated 1 tasks from 1 emails'')\<close>
    by code_simp
  have run: \<open>?post =
     ((200, TaskList ?ts ''Successfully generated 1 tasks from 1 emails''), snd ?post)\<close>
    by (simp only: e [symmetric] prod.collapse)
  have sel: "selectedEmails ?page \<noteq> []"
    by (simp add: todo_page_of_def inbox_def)
  have req: "?req = \<lparr>emails = Some (filter (\<lambda>e. email_id e \<in> set (selectedEmails ?page))
                                       (page_emails ?page)),
                     tone = Some (selectedTone ?page)\<rparr>"
    by (simp add: todo_page_of_def inbox_def)
  note t = tasks_returned_as_parsed [OF run, where now = "still 5"
      and stamp = "still ''2024-07-30T09:00:00.000Z''"]
  from t have l: "length (new_tasks (still 5) (still ''2024-07-30T09:00:00.000Z'') ?ts)
      = length ?ts"
    by (rule conjunct1 [OF conjunct2])
  from t have g: "\<forall>i < length ?ts. \<forall>k.
      get_prop (new_tasks (still 5) (still ''2024-07-30T09:00:00.000Z'') ?ts ! i) k =
        (if k = ''aiGenerated'' then Some (JBool True)
         else if k = ''createdAt'' then Some (JStr (still ''2024-07-30T09:00:00.000Z'' i))
         else if k = ''id'' then
           Some (JStr (''task-'' @ show_nat (still 5 i) @ ''-'' @ show_nat i))
         else map_of (spread (?ts ! i)) k)"
    by (rule conjunct1 [OF conjunct2 [OF conjunct2]])
  from g have g0: "\<And>k.
      get_prop (new_tasks (still 5) (still ''2024-07-30T09:00:00.000Z'') ?ts ! 0) k =
        (if k = ''aiGenerated'' then Some (JBool True)
         else if k = ''createdAt'' then Some (JStr (still ''2024-07-30T09:00:00.000Z'' 0))
         else if k = ''id'' then
           Some (JStr (''task-'' @ show_nat (still 5 0) @ ''-'' @ show_nat 0))
         else map_of (spread (?ts ! 0)) k)"
    by simp
  have i: "get_prop (new_tasks (still 5) (still ''2024-07-30T09:00:00.000Z'') ?ts ! 0) ''id''
      = Some (JStr ''task-5-0'')"
    by (simp only: g0) (simp add: still_def show_nat.simps)
  have ti: "get_prop (new_tasks (still 5) (still ''2024-07-30T09:00:00.000Z'') ?ts ! 0)
      ''title'' = Some (JStr ''Reply'')"
    by (simp only: g0) simp
  from t have m: "map (\<lambda>t. get_prop t ''emailId'')
        (new_tasks (still 5) (still ''2024-07-30T09:00:00.000Z'') ?ts) =
      map (\<lambda>t. get_prop t ''emailId'') ?ts"
    by (rule conjunct1 [OF conjunct2 [OF conjunct2 [OF conjunct2]]])
  from t have "\<forall>page :: todo_page.
          selectedEmails page \<noteq> []
          \<longrightarrow> ?req = \<lparr>emails = Some (filter (\<lambda>e. email_id e \<in> set (selectedEmails page))
                                       (page_emails page)),
                     tone = Some (selectedTone page)\<rparr>
          \<longrightarrow> generateTasksFromEmails parseAIResponse ?b
                (still 5) (still ''2024-07-30T09:00:00.000Z'') page =
                (page\<lparr>tasks := tasks page
                    @ new_tasks (still 5) (still ''2024-07-30T09:00:00.000Z'') ?ts,
                  selectedEmails := []\<rparr>, None)"
    by (rule conjunct2 [OF conjunct2 [OF conjunct2 [OF conjunct2]]])
  with sel req have p: "generateTasksFromEmails parseAIResponse ?b
        (still 5) (still ''2024-07-30T09:00:00.000Z'') ?page =
      (?page\<lparr>tasks := tasks ?page
          @ new_tasks (still 5) (still ''2024-07-30T09:00:00.000Z'') ?ts,
        selectedEmails := []\<rparr>, None)"
    by blast
  have l1: "length (new_tasks (still 5) (still ''2024-07-30T09:00:00.000Z'') ?ts) = 1"
    using l by simp
  have m1: "map (\<lambda>t. get_prop t ''emailId'')
        (new_tasks (still 5) (still ''2024-07-30T09:00:00.000Z'') ?ts) =
      [Some (JStr ''no-such-email'')]"
    using m by simp
  show ?thesis
    by (intro conjI) (rule e, rule l1, rule i, rule ti, rule m1, rule p)
qed

text \<open>
  C3 as the specification words it fails: the model answers with one task that
  has no \<open>emailId\<close>, the route returns it as it is, and the task on the page has none
  either.
\<close>

theorem task_without_emailId_counterexample:
  \<open>fst (generate_tasks_POST parseAIResponse (replying (Some ''[{"title":"Reply"}]''))
         \<lparr>emails = Some (inbox 1), tone = Some ''professional''\<rparr>) =
     (200, TaskList [JObj [(''title'', JStr ''Reply''), (''description'', JStr ''''),
                             (''assignedTo'', JStr '''')]]
             ''Successfully generated 1 tasks from 1 emails'')
   \<and> get_prop (JObj [(''title'', JStr ''Reply''), (''description'', JStr ''''),
                   (''assignedTo'', JStr '''')]) ''emailId'' = None
   \<and> tasks (fst (generateTasksFromEmails parseAIResponse
                (replying (Some ''[{"title":"Reply"}]''))
                (still 5) (still ''2024-07-30T09:00:00.000Z'')
                (todo_page_of (inbox 1)))) =
     [JObj [(''title'', JStr ''Reply''), (''description'', JStr ''''),
            (''assignedTo'', JStr ''''), (''id'', JStr ''task-5-0''),
            (''createdAt'', JStr ''2024-07-30T09:00:00.000Z''),
            (''aiGenerated'', JBool True)]]\<close>
  by code_simp


text \<open>
  C1. With the helper of the specification, a response text that is not JSON is never
  fatal: when the backend answers with a text, the task route answers 200 with the array
  that the helper extracted (empty when nothing parses), and the categorize route answers
  200 with a list of records.
\<close>

theorem malformed_output_never_fatal:
  assumes "emails req = Some es" and "es \<noteq> []" and "list_models backend = None"
    and "\<forall>m. \<exists>text. chat backend ''phi3'' m = Inr (Some text) \<and> text \<noteq> []"
  shows "(\<exists>text message. chat backend ''phi3'' (task_messages es) = Inr (Some text)
            \<and> fst (generate_tasks_POST parseAIResponse backend req) =
                (200, TaskList (map validate_element (first_array (attempts text))) message))
    \<and> (\<exists>out. fst (categorize_POST parseAIResponse backend req) = (200, Categorized out))"
proof -
  from assms(4) obtain rt where
    rt: "chat backend ''phi3'' (task_messages es) = Inr (Some rt)" "rt \<noteq> []"
    by blast
  have "fst (generate_tasks_POST parseAIResponse backend req) =
      (200, TaskList (map validate_element (first_array (attempts rt)))
         (''Successfully generated '' @ show_nat (length (map validate_element (first_array (attempts rt))))
            @ '' tasks from '' @ show_nat (length es) @ '' emails''))"
    using assms(1-3) rt
    by (simp add: generate_tasks_POST_def tasks_response_def reconcile_tasks_def
          parseAIResponse_def Let_def)
  then have tasks: "\<exists>text message. chat backend ''phi3'' (task_messages es) = Inr (Some text)
      \<and> fst (generate_tasks_POST parseAIResponse backend req) =
          (200, TaskList (map validate_element (first_array (attempts text))) message)"
    using rt(1) by blast
  have "\<forall>m. \<exists>r. chat backend ''phi3'' m = Inr r"
    using assms(4) by blast
  from categorize_loop_total [OF this, of parseAIResponse es 0 "[]" "[ListCall]"]
  obtain out calls where
    "categorize_loop parseAIResponse backend es 0 [] [ListCall] = (Inr out, calls)"
    by blast
  then have "fst (categorize_POST parseAIResponse backend req) = (200, Categorized out)"
    using assms(1,3) by (simp add: categorize_POST_def)
  with tasks show ?thesis by blast
qed


theorem malformed_output_never_fatal_witness:
  \<open>emails \<lparr>emails = Some (inbox 1), tone = None\<rparr> = Some (inbox 1)
   \<and> inbox 1 \<noteq> []
   \<and> list_models (replying (Some ''not sure, I can't help with that'')) = None
   \<and> (\<exists>out. fst (categorize_POST parseAIResponse
                   (replying (Some ''not sure, I can't help with that''))
                   \<lparr>emails = Some (inbox 1), tone = None\<rparr>) = (200, Categorized out))
   \<and> fst (categorize_POST parseAIResponse
            (replying (Some ''not sure, I can't help with that''))
            \<lparr>emails = Some (inbox 1), tone = None\<rparr>) =
        (200, Categorized [fallback_record (mail ''0'' ''Weekly report'')])
   \<and> fst (generate_tasks_POST parseAIResponse
            (replying (Some ''not sure, I can't help with that''))
            \<lparr>emails = Some (inbox 1), tone = None\<rparr>) =
        (200, TaskList [] ''Successfully generated 0 tasks from 1 emails'')\<close>
proof -
  let ?b = \<open>replying (Some ''not sure, I can't help with that'')\<close>
  let ?r = "\<lparr>emails = Some (inbox 1), tone = None\<rparr>"
  have a: "emails ?r = Some (inbox 1)" by simp
  have b: "inbox 1 \<noteq> []" by code_simp
  have c: "list_models ?b = None" by (simp add: replying_def)
  have d: "\<forall>m. \<exists>text. chat ?b ''phi3'' m = Inr (Some text) \<and> text \<noteq> []"
    by (simp add: replying_def)
  have e: \<open>fst (generate_tasks_POST parseAIResponse ?b ?r) =
      (200, TaskList [] ''Successfully generated 0 tasks from 1 emails'')\<close>
    by code_simp
  have f: "fst (categorize_POST parseAIResponse ?b ?r) =
      (200, Categorized [fallback_record (mail ''0'' ''Weekly report'')])"
    by code_simp
  from malformed_output_never_fatal [OF a b c d]
  have "\<exists>out. fst (categorize_POST parseAIResponse ?b ?r) = (200, Categorized out)"
    by blast
  with a b c e f show ?thesis by blast
qed


section \<open>Failures of the backend and of the input\<close>

lemma categorize_POST_unavailable:
  "(fst (categorize_POST helper backend req) = unavailable) = (list_models backend \<noteq> None)"
proof (cases "list_models backend")
  case (Some ex)
  then show ?thesis by (simp add: categorize_POST_def)
next
  case None
  show ?thesis
  proof (cases "emails req")
    case n: None
    then show ?thesis using None by (simp add: categorize_POST_def unavailable_def)
  next
    case (Some es)
    obtain res calls where
      "categorize_loop helper backend es 0 [] [ListCall] = (res, calls)"
      by (cases "categorize_loop helper backend es 0 [] [ListCall]")
    then show ?thesis
      using None Some by (cases res) (simp_all add: categorize_POST_def unavailable_def)
  qed
qed

lemma generate_tasks_POST_unavailable:
  assumes "emails req = Some es" and "es \<noteq> []"
  shows "(fst (generate_tasks_POST helper backend req) = unavailable)
           = (list_models backend \<noteq> None)"
  using assms
  by (auto simp: generate_tasks_POST_def unavailable_def tasks_response_def
        reconcile_tasks_def Let_def split: option.splits sum.splits)

lemma generate_tasks_POST_no_response:
  assumes "emails req = Some es" and "es \<noteq> []"
  shows "(fst (generate_tasks_POST helper backend req) =
            (500, ErrorBody ''No response generated from AI''))
         = (list_models backend = None
            \<and> (chat backend ''phi3'' (task_messages es) = Inr None
               \<or> chat backend ''phi3'' (task_messages es) = Inr (Some [])))"
  using assms
  by (auto simp: generate_tasks_POST_def unavailable_def tasks_response_def
        reconcile_tasks_def Let_def split: option.splits sum.splits)


text \<open>
  C5. Both routes answer with the error that tells to start Ollama exactly when the
  availability probe throws, after that one call and no other (for the task route: on a
  request with emails). The task route answers \<open>No response generated from AI\<close> exactly
  when the probe succeeds and the chat gives an empty or absent message. The draft route
  has no such error: it puts a default text in the place of an empty or absent message.
\<close>

theorem backend_failures:
  "(fst (categorize_POST helper backend req) = unavailable \<longleftrightarrow> list_models backend \<noteq> None)
   \<and> (list_models backend \<noteq> None \<longrightarrow>
        snd (categorize_POST helper backend req) = [ListCall])
   \<and> (emails req = Some es \<and> es \<noteq> [] \<longrightarrow>
        (fst (generate_tasks_POST helper backend req) = unavailable
           \<longleftrightarrow> list_models backend \<noteq> None)
        \<and> (list_models backend \<noteq> None \<longrightarrow>
              snd (generate_tasks_POST helper backend req) = [ListCall])
        \<and> (fst (generate_tasks_POST helper backend req) =
              (500, ErrorBody ''No response generated from AI'')
            \<longleftrightarrow> list_models backend = None
                \<and> (chat backend ''phi3'' (task_messages es) = Inr None
                   \<or> chat backend ''phi3'' (task_messages es) = Inr (Some []))))
   \<and> (draft_email dreq = Some e \<and> list_models backend = None
        \<and> (chat backend ''phi3'' (draft_messages e (draft_tone dreq) (instructions dreq))
               = Inr None
           \<or> chat backend ''phi3'' (draft_messages e (draft_tone dreq) (instructions dreq))
               = Inr (Some [])) \<longrightarrow>
        fst (draft_POST backend dreq) =
          (200, DraftBody ''Unable to generate draft response.''))"
proof -
  have c2: "list_models backend \<noteq> None \<longrightarrow>
      snd (categorize_POST helper backend req) = [ListCall]"
    by (auto simp: categorize_POST_def)
  have t2: "list_models backend \<noteq> None \<longrightarrow> emails req = Some es \<and> es \<noteq> [] \<longrightarrow>
      snd (generate_tasks_POST helper backend req) = [ListCall]"
    by (auto simp: generate_tasks_POST_def)
  have d: "draft_email dreq = Some e \<and> list_models backend = None
        \<and> (chat backend ''phi3'' (draft_messages e (draft_tone dreq) (instructions dreq))
               = Inr None
           \<or> chat backend ''phi3'' (draft_messages e (draft_tone dreq) (instructions dreq))
               = Inr (Some [])) \<longrightarrow>
        fst (draft_POST backend dreq) =
          (200, DraftBody ''Unable to generate draft response.'')"
    by (auto simp: draft_POST_def Let_def)
  show ?thesis
    using categorize_POST_unavailable [of helper backend req]
      generate_tasks_POST_unavailable [of req es helper backend]
      generate_tasks_POST_no_response [of req es helper backend] c2 t2 d
    by blast
qed


theorem backend_failures_witness:
  "list_models unreachable \<noteq> None
   \<and> emails \<lparr>emails = Some (inbox 1), tone = None\<rparr> = Some (inbox 1) \<and> inbox 1 \<noteq> []
   \<and> categorize_POST parseAIResponse unreachable \<lparr>emails = Some (inbox 1), tone = None\<rparr>
       = (unavailable, [ListCall])
   \<and> generate_tasks_POST parseAIResponse unreachable \<lparr>emails = Some (inbox 1), tone = None\<rparr>
       = (unavailable, [ListCall])
   \<and> list_models (replying None) = None
   \<and> chat (replying None) ''phi3'' (task_messages (inbox 1)) = Inr None
   \<and> fst (generate_tasks_POST parseAIResponse (replying None)
            \<lparr>emails = Some (inbox 1), tone = None\<rparr>) =
        (500, ErrorBody ''No response generated from AI'')
   \<and> draft_email \<lparr>draft_email = Some (mail ''0'' ''Weekly report''), draft_tone = None,
           instructions = None\<rparr> = Some (mail ''0'' ''Weekly report'')
   \<and> fst (draft_POST (replying None)
          \<lparr>draft_email = Some (mail ''0'' ''Weekly report''), draft_tone = None,
           instructions = None\<rparr>) = (200, DraftBody ''Unable to generate draft response.'')"
proof -
  let ?req = "\<lparr>emails = Some (inbox 1), tone = None\<rparr>"
  let ?dreq = "\<lparr>draft_email = Some (mail ''0'' ''Weekly report''), draft_tone = None,
           instructions = None\<rparr>"
  have a: "list_models unreachable \<noteq> None" by (simp add: unreachable_def)
  have b: "emails ?req = Some (inbox 1) \<and> inbox 1 \<noteq> []" by code_simp
  have c: "list_models (replying None) = None" by (simp add: replying_def)
  have d: "chat (replying None) ''phi3'' (task_messages (inbox 1)) = Inr None"
    by (simp add: replying_def)
  have e: "draft_email ?dreq = Some (mail ''0'' ''Weekly report'')" by simp
  have f: "chat (replying None) ''phi3''
      (draft_messages (mail ''0'' ''Weekly report'') (draft_tone ?dreq) (instructions ?dreq))
      = Inr None"
    by (simp add: replying_def)
  note down = backend_failures [of parseAIResponse unreachable ?req "inbox 1" ?dreq
      "mail ''0'' ''Weekly report''"]
  note quiet = backend_failures [of parseAIResponse "replying None" ?req "inbox 1" ?dreq
      "mail ''0'' ''Weekly report''"]
  have 1: "categorize_POST parseAIResponse unreachable ?req = (unavailable, [ListCall])"
    using down a by (metis prod.collapse)
  have 2: "generate_tasks_POST parseAIResponse unreachable ?req = (unavailable, [ListCall])"
    using down a b by (metis prod.collapse)
  have 3: "fst (generate_tasks_POST parseAIResponse (replying None) ?req) =
        (500, ErrorBody ''No response generated from AI'')"
    using quiet b c d by blast
  have 4: "fst (draft_POST (replying None) ?dreq) =
      (200, DraftBody ''Unable to generate draft response.'')"
    using quiet c e f by blast
  show ?thesis using a b c d e 1 2 3 4 by blast
qed


text \<open>
  C5 as the specification words it fails: for an empty or an absent message
  the categorize route answers 200 with the records it has, and the draft route answers
  200 with its default text.
\<close>

theorem empty_reply_counterexample:
  "fst (categorize_POST parseAIResponse (replying (Some ''''))
          \<lparr>emails = Some (inbox 1), tone = None\<rparr>) = (200, Categorized [])
   \<and> fst (categorize_POST parseAIResponse (replying None)
          \<lparr>emails = Some (inbox 1), tone = None\<rparr>) = (200, Categorized [])
   \<and> fst (draft_POST (replying None)
          \<lparr>draft_email = Some (mail ''0'' ''Weekly report''), draft_tone = None,
           instructions = None\<rparr>) = (200, DraftBody ''Unable to generate draft response.'')"
  by code_simp


text \<open>
  C6. The task route answers an absent or empty list of emails with 400, before any
  backend call. The categorize route probes the backend first; with the probe succeeding
  it answers an absent list with 400 and an empty list with 200 and no record, and makes
  no chat call for either.
\<close>

theorem empty_input:
  "(emails req = None \<or> emails req = Some [] \<longrightarrow>
      generate_tasks_POST helper backend req = ((400, ErrorBody ''No emails provided''), []))
   \<and> (emails req = None \<and> list_models backend = None \<longrightarrow>
        categorize_POST helper backend req =
          ((400, ErrorBody ''Invalid emails data''), [ListCall]))
   \<and> (emails req = Some [] \<and> list_models backend = None \<longrightarrow>
        categorize_POST helper backend req = ((200, Categorized []), [ListCall]))"
  by (auto simp: generate_tasks_POST_def categorize_POST_def categorize_loop.simps)


theorem empty_input_witness:
  "emails \<lparr>emails = Some [], tone = None\<rparr> = Some []
   \<and> list_models (replying (Some ''[]'')) = None
   \<and> generate_tasks_POST parseAIResponse (replying (Some ''[]''))
        \<lparr>emails = Some [], tone = None\<rparr> = ((400, ErrorBody ''No emails provided''), [])
   \<and> emails \<lparr>emails = None, tone = None\<rparr> = None
   \<and> categorize_POST parseAIResponse (replying (Some ''[]'')) \<lparr>emails = None, tone = None\<rparr>
        = ((400, ErrorBody ''Invalid emails data''), [ListCall])"
proof -
  have a: "emails \<lparr>emails = Some [], tone = None\<rparr> = Some []" by simp
  have b: "list_models (replying (Some ''[]'')) = None" by (simp add: replying_def)
  have c: "emails \<lparr>emails = None, tone = None\<rparr> = None" by simp
  from empty_input [of "\<lparr>emails = Some [], tone = None\<rparr>" parseAIResponse
      "replying (Some ''[]'')"] a
  have 1: "generate_tasks_POST parseAIResponse (replying (Some ''[]''))
        \<lparr>emails = Some [], tone = None\<rparr> = ((400, ErrorBody ''No emails provided''), [])"
    by blast
  from empty_input [of "\<lparr>emails = None, tone = None\<rparr>" parseAIResponse
      "replying (Some ''[]'')"] b c
  have 2: "categorize_POST parseAIResponse (replying (Some ''[]''))
      \<lparr>emails = None, tone = None\<rparr> = ((400, ErrorBody ''Invalid emails data''), [ListCall])"
    by blast
  show ?thesis using a b c 1 2 by blast
qed

text \<open>
  C6 as the specification words it fails: the categorize route answers the
  empty list with 200, after one backend call.
\<close>

theorem empty_list_categorized_counterexample:
  "categorize_POST parseAIResponse (replying (Some ''[]'')) \<lparr>emails = Some [], tone = None\<rparr>
     = ((200, Categorized []), [ListCall])"
  by code_simp


section \<open>The tone\<close>

lemma draft_prompt_tone:
  assumes "draft_prompt e t instr = draft_prompt e t' instr"
  shows "tone_or_professional t = tone_or_professional t'"
proof -
  from assms have "length (draft_prompt e t instr) = length (draft_prompt e t' instr)"
    by simp
  then have len: "length (tone_or_professional t) = length (tone_or_professional t')"
    by (simp add: draft_prompt_def)
  from assms len show ?thesis
    by (simp add: draft_prompt_def append_eq_append_conv)
qed

lemma tone_or_professional_simps:
  "tone_or_professional None = ''professional''"
  "tone_or_professional (Some []) = ''professional''"
  "t \<noteq> [] \<Longrightarrow> tone_or_professional (Some t) = t"
  by (simp_all add: tone_or_professional_def)


text \<open>
  C7. \<open>professional\<close> stands in for an absent or empty tone only. The draft prompt
  holds any other tone as it is, so that it equals the prompt for \<open>professional\<close>
  exactly when the tone is empty or is \<open>professional\<close>; and the task route answers
  the same whatever the tone.
\<close>

theorem tone_default_only_when_absent:
  "tone_or_professional None = ''professional''
   \<and> tone_or_professional (Some []) = ''professional''
   \<and> (t \<noteq> [] \<longrightarrow> tone_or_professional (Some t) = t)
   \<and> (draft_prompt e (Some t) instr = draft_prompt e (Some ''professional'') instr
        \<longleftrightarrow> t = [] \<or> t = ''professional'')
   \<and> generate_tasks_POST helper backend (req\<lparr>tone := Some t\<rparr>) =
       generate_tasks_POST helper backend req"
proof -
  have inj: "draft_prompt e (Some t) instr = draft_prompt e (Some ''professional'') instr
        \<longleftrightarrow> t = [] \<or> t = ''professional''"
  proof
    assume "draft_prompt e (Some t) instr = draft_prompt e (Some ''professional'') instr"
    from draft_prompt_tone [OF this]
    show "t = [] \<or> t = ''professional''"
      by (cases "t = []") (simp_all add: tone_or_professional_def)
  next
    assume "t = [] \<or> t = ''professional''"
    then show "draft_prompt e (Some t) instr = draft_prompt e (Some ''professional'') instr"
      by (auto simp: draft_prompt_def tone_or_professional_def)
  qed
  have ign: "generate_tasks_POST helper backend (req\<lparr>tone := Some t\<rparr>) =
       generate_tasks_POST helper backend req"
    by (simp add: generate_tasks_POST_def)
  show ?thesis
    using inj ign by (simp add: tone_or_professional_def)
qed


theorem tone_default_only_when_absent_witness:
  "''sarcastic'' \<noteq> []
   \<and> tone_or_professional (Some ''sarcastic'') = ''sarcastic''
   \<and> draft_prompt (mail ''0'' ''Weekly report'') (Some '''') None =
      draft_prompt (mail ''0'' ''Weekly report'') (Some ''professional'') None"
proof -
  have a: "''sarcastic'' \<noteq> []" by simp
  from tone_default_only_when_absent [of "''sarcastic''"] a
  have 1: "tone_or_professional (Some ''sarcastic'') = ''sarcastic''" by blast
  from tone_default_only_when_absent [of "''''" "mail ''0'' ''Weekly report''" None]
  have 2: "draft_prompt (mail ''0'' ''Weekly report'') (Some '''') None =
      draft_prompt (mail ''0'' ''Weekly report'') (Some ''professional'') None" by blast
  show ?thesis using a 1 2 by blast
qed

text \<open>
  C7 as the specification words it fails: \<open>sarcastic\<close> is not among the
  recognised tones, and the draft prompt for it is not the prompt for \<open>professional\<close>.
\<close>

theorem unrecognized_tone_kept_counterexample:
  "''sarcastic'' \<notin> set recognized_tones
   \<and> draft_prompt (mail ''0'' ''Weekly report'') (Some ''sarcastic'') None \<noteq>
      draft_prompt (mail ''0'' ''Weekly report'') (Some ''professional'') None"
  by code_simp


end
